theory Spec2Isabelle
  imports Main "HOL-Library.AList" "HOL-Library.Char_ord" "HOL-Library.List_Lexorder"
begin

section \<open>The decg workspace CLI (scripts/decg/cli.py)\<close>

text \<open>
  The CLI is a sequence of shell invocations, file-system operations and console output.
  The embedding makes all three explicit: every command is a function from the state of
  the outside world to a result (\<open>Inl\<close> an abort, \<open>Inr\<close> a value), the new world
  and the list of effects it performed, in order.
\<close>

subsection \<open>Strings and paths\<close>

text \<open>\<open>sep.join(xs)\<close> of Python.\<close>

fun str_join :: "string \<Rightarrow> string list \<Rightarrow> string" where
  "str_join sep [] = []"
| "str_join sep [x] = x"
| "str_join sep (x # y # ys) = x @ sep @ str_join sep (y # ys)"

definition newline :: string where
  "newline = [CHR 0x0A]"

text \<open>
  A \<open>pathlib.Path\<close> that is absolute is the list of its components below the root
  directory; the root itself is \<open>[]\<close>. \<open>split_on\<close> cuts a string at a separator,
  and \<open>path_parts\<close> drops the empty and \<open>.\<close> segments as \<open>Path(s)\<close> does.
\<close>

type_synonym path = "string list"

fun split_on :: "char \<Rightarrow> string \<Rightarrow> string list" where
  "split_on c [] = [[]]"
| "split_on c (x # xs) =
     (if x = c then [] # split_on c xs
      else (case split_on c xs of [] \<Rightarrow> [[x]] | s # ss \<Rightarrow> (x # s) # ss))"

definition path_parts :: "string \<Rightarrow> path" where
  "path_parts s = filter (\<lambda>seg. seg \<noteq> [] \<and> seg \<noteq> ''.'') (split_on CHR ''/'' s)"

definition is_absolute :: "string \<Rightarrow> bool" where
  "is_absolute s = (case s of [] \<Rightarrow> False | c # _ \<Rightarrow> c = CHR ''/'')"

definition parent :: "path \<Rightarrow> path" where
  "parent p = butlast p"

definition path_name :: "path \<Rightarrow> string" where
  "path_name p = (if p = [] then [] else last p)"

text \<open>\<open>p / s\<close>: an absolute right operand replaces the left one.\<close>

definition joinpath :: "path \<Rightarrow> string \<Rightarrow> path" where
  "joinpath p s = (if is_absolute s then path_parts s else p @ path_parts s)"

text \<open>\<open>s.replace(old, "")\<close> for a non-empty \<open>old\<close>.\<close>

function str_remove :: "string \<Rightarrow> string \<Rightarrow> string" where
  "str_remove old s =
     (if s = [] \<or> old = [] then s
      else if take (length old) s = old then str_remove old (drop (length old) s)
      else hd s # str_remove old (tl s))"
  by pat_completeness auto
termination
  by (relation "measure (\<lambda>(old, s). length s)") auto

declare str_remove.simps [simp del]

subsection \<open>The outside world\<close>

text \<open>
  File contents. The boilerplate that \<open>docs init\<close> and \<open>release init\<close> write is
  Korean text; it is kept symbolic, with the folder or version it is instantiated for.
\<close>

datatype content =
    Text string
  | DocsTemplate string
  | ReleaseNotesTemplate string
  | VersionMatrixTemplate string
  | ChangelogTemplate string

datatype node = Dir | File content

type_synonym filesystem = "(path \<times> node) list"

definition lookup :: "filesystem \<Rightarrow> path \<Rightarrow> node option" where
  "lookup files p = (if p = [] then Some Dir else map_of files p)"

definition path_exists :: "filesystem \<Rightarrow> path \<Rightarrow> bool" where
  "path_exists files p = (lookup files p \<noteq> None)"

text \<open>
  The world is the file system and whatever else external processes keep (\<open>ext\<close>: the
  state of the git repositories, for one).
\<close>

record 'x world =
  fs :: filesystem
  ext :: 'x

text \<open>\<open>subprocess.CompletedProcess\<close>.\<close>

record completed =
  returncode :: int
  stdout :: string
  stderr :: string

datatype error =
    Exit int
  | OSError
  | YAMLError

text \<open>
  A checkout scope is the dictionary under a submodule's name in a profile. The code reads
  it with \<open>config.get("include", [])\<close> and \<open>config.get("exclude", [])\<close> only, so
  an absent key is the empty list.
\<close>

record scope =
  include_paths :: "string list"
  exclude_paths :: "string list"

text \<open>
  A parsed profile document: the mapping under its \<open>submodules\<close> key when it has
  one, and its other top-level keys.
\<close>

record profile =
  submodules :: "(string \<times> scope) list option"
  other_keys :: "string list"

text \<open>
  What the process is given: the shell that \<open>subprocess.run\<close> starts, the YAML parser
  (\<open>Inr None\<close> is a document that loads as \<open>None\<close>) and the working directory.
\<close>

record 'x env =
  shell :: "string \<Rightarrow> path \<Rightarrow> 'x world \<Rightarrow> completed \<times> 'x world"
  safe_load :: "content \<Rightarrow> error + profile option"
  getcwd :: path

subsection \<open>Console output and effects\<close>

text \<open>
  The messages of the commands below, by template, with the values interpolated into
  them. \<open>Ascii\<close> carries a message that is plain ASCII.
\<close>

datatype sparse_msg =
    SparseEnable string
  | IncludedPath string
  | AllIncludedWithExclusions
  | ExcludedPath string

datatype init_msg =
    InitBanner string string
  | ProfileLoaded string string
  | ModulesGiven nat
  | StepBanner nat
  | SwitchedToExisting string
  | CreatedBranch string
  | SkippedSubmodules string
  | FullCheckout string
  | SubmodulesDone
  | DocsDone
  | ComposeFound
  | ComposeMissing
  | StepDockerSkipped
  | InitDone string string
  | NextSteps

datatype branch_msg =
    BranchBanner string
  | UnknownRepo string
  | RepoMissing string
  | RepoHeader string
  | BranchCreated string

datatype docs_msg =
    AlreadyExists string string string
  | DocsBanner string string
  | DocsCreated string string
  | ReleaseBanner string string
  | ReleaseCreated string string
  | VersionPathMissing
  | DiffBanner string string
  | AddedHeader nat
  | AddedFile path
  | RemovedHeader nat
  | RemovedFile path
  | CommonCount nat

datatype template =
    Ascii string
  | HubRootNotFound
  | Cmd string
  | CmdFailed string
  | Sparse sparse_msg
  | Init init_msg
  | Branch branch_msg
  | Docs docs_msg

datatype msg = Plain template | Success template | Info template | Warning template

datatype effect =
    Echo msg
  | EchoErr msg
  | Run string path
  | WriteText path content
  | Mkdir path

fun commands :: "effect list \<Rightarrow> string list" where
  "commands [] = []"
| "commands (Run c d # es) = c # commands es"
| "commands (e # es) = commands es"

fun writes :: "effect list \<Rightarrow> (path \<times> content) list" where
  "writes [] = []"
| "writes (WriteText p c # es) = (p, c) # writes es"
| "writes (e # es) = writes es"

fun echoes :: "effect list \<Rightarrow> msg list" where
  "echoes [] = []"
| "echoes (Echo m # es) = m # echoes es"
| "echoes (e # es) = echoes es"

subsection \<open>Programs\<close>

type_synonym ('x, 'a) prog = "'x world \<Rightarrow> (error + 'a) \<times> 'x world \<times> effect list"

definition return :: "'a \<Rightarrow> ('x, 'a) prog" where
  "return a w = (Inr a, w, [])"

definition raise :: "error \<Rightarrow> ('x, 'a) prog" where
  "raise e w = (Inl e, w, [])"

definition bindP :: "('x, 'a) prog \<Rightarrow> ('a \<Rightarrow> ('x, 'b) prog) \<Rightarrow> ('x, 'b) prog" where
  "bindP m f w =
     (case m w of
        (Inl e, w1, t1) \<Rightarrow> (Inl e, w1, t1)
      | (Inr a, w1, t1) \<Rightarrow> (case f a w1 of (r, w2, t2) \<Rightarrow> (r, w2, t1 @ t2)))"

definition thenP :: "('x, 'a) prog \<Rightarrow> ('x, 'b) prog \<Rightarrow> ('x, 'b) prog" where
  "thenP m k = bindP m (\<lambda>_. k)"

text \<open>A \<open>for\<close> loop whose body may abort.\<close>

fun for_each :: "('a \<Rightarrow> ('x, unit) prog) \<Rightarrow> 'a list \<Rightarrow> ('x, unit) prog" where
  "for_each body [] w = return () w"
| "for_each body (x # xs) w = thenP (body x) (for_each body xs) w"

definition result_of :: "(error + 'a) \<times> 'x world \<times> effect list \<Rightarrow> error + 'a" where
  "result_of r = fst r"

definition world_of :: "(error + 'a) \<times> 'x world \<times> effect list \<Rightarrow> 'x world" where
  "world_of r = fst (snd r)"

definition trace_of :: "(error + 'a) \<times> 'x world \<times> effect list \<Rightarrow> effect list" where
  "trace_of r = snd (snd r)"

definition echo :: "msg \<Rightarrow> ('x, unit) prog" where
  "echo m w = (Inr (), w, [Echo m])"

definition echo_err :: "msg \<Rightarrow> ('x, unit) prog" where
  "echo_err m w = (Inr (), w, [EchoErr m])"

definition echo_success :: "template \<Rightarrow> ('x, unit) prog" where
  "echo_success t = echo (Success t)"

definition echo_info :: "template \<Rightarrow> ('x, unit) prog" where
  "echo_info t = echo (Info t)"

definition echo_warning :: "template \<Rightarrow> ('x, unit) prog" where
  "echo_warning t = echo (Warning t)"

subsection \<open>File-system operations\<close>

text \<open>
  \<open>Path.write_text\<close>: the parent must be a directory and the target must not be one.
\<close>

definition write_text :: "path \<Rightarrow> content \<Rightarrow> ('x, unit) prog" where
  "write_text p c w =
     (if lookup (fs w) (parent p) = Some Dir \<and> lookup (fs w) p \<noteq> Some Dir \<and> p \<noteq> []
      then (Inr (), w\<lparr>fs := AList.update p (File c) (fs w)\<rparr>, [WriteText p c])
      else (Inl OSError, w, [WriteText p c]))"

text \<open>
  \<open>Path.mkdir(parents, exist_ok)\<close> on a file system: an existing target is accepted only
  with \<open>exist_ok\<close> and when it is a directory; a missing parent is created only with
  \<open>parents\<close>.
\<close>

function mkdir_fs :: "bool \<Rightarrow> bool \<Rightarrow> filesystem \<Rightarrow> path \<Rightarrow> error + filesystem" where
  "mkdir_fs parents exist_ok files p =
     (if lookup files p \<noteq> None then
        (if exist_ok \<and> lookup files p = Some Dir then Inr files else Inl OSError)
      else
        (case lookup files (parent p) of
           Some Dir \<Rightarrow> Inr (AList.update p Dir files)
         | Some (File c) \<Rightarrow> Inl OSError
         | None \<Rightarrow>
             (if \<not> parents then Inl OSError
              else (case mkdir_fs True True files (parent p) of
                      Inl e \<Rightarrow> Inl e
                    | Inr files' \<Rightarrow> Inr (AList.update p Dir files')))))"
  by pat_completeness auto
termination
proof (relation "measure (\<lambda>(parents, exist_ok, files, p). length p)")
  show "wf (measure (\<lambda>(parents, exist_ok, files, p). length p))"
    by simp
next
  fix parents exist_ok :: bool and files :: filesystem and p :: path
  assume "\<not> lookup files p \<noteq> None"
  then have "p \<noteq> []"
    by (auto simp: lookup_def)
  then show "((True, True, files, parent p), (parents, exist_ok, files, p))
      \<in> measure (\<lambda>(parents, exist_ok, files, p). length p)"
    by (simp add: parent_def)
qed

declare mkdir_fs.simps [simp del]

definition mkdir :: "bool \<Rightarrow> bool \<Rightarrow> path \<Rightarrow> ('x, unit) prog" where
  "mkdir parents exist_ok p w =
     (case mkdir_fs parents exist_ok (fs w) p of
        Inl e \<Rightarrow> (Inl e, w, [Mkdir p])
      | Inr files \<Rightarrow> (Inr (), w\<lparr>fs := files\<rparr>, [Mkdir p]))"

subsection \<open>Utility functions\<close>

text \<open>
  \<open>get_hub_root\<close> walks from the working directory towards the root and returns the
  first directory holding \<open>.gitmodules\<close>; the root directory itself ends the walk
  without being looked at.
\<close>

function find_hub_root :: "filesystem \<Rightarrow> path \<Rightarrow> path option" where
  "find_hub_root files current =
     (if current = parent current then None
      else if path_exists files (current @ [''.gitmodules'']) then Some current
      else find_hub_root files (parent current))"
  by pat_completeness auto
termination
proof (relation "measure (\<lambda>(files, current). length current)")
  show "wf (measure (\<lambda>(files, current). length current))"
    by simp
next
  fix files :: filesystem and current :: path
  assume "current \<noteq> parent current"
  then have "current \<noteq> []"
    by (auto simp: parent_def)
  then show "((files, parent current), (files, current))
      \<in> measure (\<lambda>(files, current). length current)"
    by (simp add: parent_def)
qed

declare find_hub_root.simps [simp del]

definition get_hub_root :: "'x env \<Rightarrow> ('x, path) prog" where
  "get_hub_root env w =
     (case find_hub_root (fs w) (getcwd env) of
        Some current \<Rightarrow> return current w
      | None \<Rightarrow> thenP (echo_err (Plain HubRootNotFound)) (raise (Exit 1)) w)"

text \<open>
  \<open>run_shell\<close> echoes the command, runs it, and with \<open>check\<close> turns a non-zero
  return code into \<open>typer.Exit\<close> with that code.
\<close>

definition run_shell :: "'x env \<Rightarrow> string \<Rightarrow> path \<Rightarrow> bool \<Rightarrow> ('x, completed) prog" where
  "run_shell env cmd cwd check w =
     (case shell env cmd cwd w of
        (result, w') \<Rightarrow>
          if check \<and> returncode result \<noteq> 0
          then (Inl (Exit (returncode result)), w',
                [Echo (Plain (Cmd cmd)), Run cmd cwd, EchoErr (Plain (CmdFailed (stderr result)))])
          else (Inr result, w', [Echo (Plain (Cmd cmd)), Run cmd cwd]))"

subsection \<open>Sparse checkout\<close>

text \<open>
  \<open>load_sparse_profile\<close>: an explicit profile path (a non-empty string) is taken below
  the hub root unless it is absolute; without one the conventional path is used. A path
  that does not exist gives \<open>None\<close>.
\<close>

definition profile_location :: "path \<Rightarrow> string \<Rightarrow> string \<Rightarrow> string option \<Rightarrow> path" where
  "profile_location hub_root service version profile_path =
     (if profile_path \<noteq> None \<and> profile_path \<noteq> Some [] then
        (if \<not> is_absolute (the profile_path) then joinpath hub_root (the profile_path)
         else path_parts (the profile_path))
      else joinpath (joinpath (joinpath hub_root ''configs'') ''sparse-profiles'')
             (service @ ''-'' @ version @ ''.yaml''))"

definition load_sparse_profile ::
  "'x env \<Rightarrow> path \<Rightarrow> string \<Rightarrow> string \<Rightarrow> string option \<Rightarrow> ('x, profile option) prog" where
  "load_sparse_profile env hub_root service version profile_path w =
     (let p = profile_location hub_root service version profile_path in
      if path_exists (fs w) p then
        (case lookup (fs w) p of
           Some (File c) \<Rightarrow>
             (case safe_load env c of Inl e \<Rightarrow> raise e w | Inr doc \<Rightarrow> return doc w)
         | _ \<Rightarrow> raise OSError w)
      else return None w)"

text \<open>
  \<open>apply_sparse_checkout\<close>. The pattern list of the exclude branch is built by the
  loop that appends one negation per excluded path to \<open>["/*"]\<close>.
\<close>

definition exclude_patterns :: "string list \<Rightarrow> string list" where
  "exclude_patterns excl = foldl (\<lambda>patterns p. patterns @ [''!/'' @ p]) [''/*''] excl"

definition apply_sparse_checkout :: "'x env \<Rightarrow> path \<Rightarrow> scope \<Rightarrow> ('x, unit) prog" where
  "apply_sparse_checkout env submodule_path config =
     thenP (echo (Plain (Sparse (SparseEnable (path_name submodule_path)))))
       (if include_paths config \<noteq> [] then
          thenP (run_shell env ''git sparse-checkout init --cone'' submodule_path False)
         (thenP (run_shell env
                   (''git sparse-checkout set '' @ str_join '' '' (include_paths config)
                      @ '' packages/'')
                   submodule_path False)
                (for_each (\<lambda>p. echo (Plain (Sparse (IncludedPath p)))) (include_paths config)))
        else if exclude_paths config \<noteq> [] then
          thenP (run_shell env ''git sparse-checkout init --no-cone'' submodule_path False)
         (thenP (write_text (submodule_path @ [''.git'', ''info'', ''sparse-checkout''])
                   (Text (str_join newline (exclude_patterns (exclude_paths config)) @ newline)))
         (thenP (run_shell env ''git read-tree -mu HEAD'' submodule_path False)
         (thenP (echo (Plain (Sparse AllIncludedWithExclusions)))
                (for_each (\<lambda>p. echo (Plain (Sparse (ExcludedPath p)))) (exclude_paths config)))))
        else return ())"

subsection \<open>init\<close>

definition truthy :: "profile option \<Rightarrow> bool" where
  "truthy sparse_profile =
     (case sparse_profile of
        None \<Rightarrow> False
      | Some doc \<Rightarrow> submodules doc \<noteq> None \<or> other_keys doc \<noteq> [])"

text \<open>\<open>sparse_profile and "submodules" in sparse_profile\<close>, and the mapping then found.\<close>

definition has_submodules :: "profile option \<Rightarrow> bool" where
  "has_submodules sparse_profile =
     (truthy sparse_profile \<and>
      (case sparse_profile of None \<Rightarrow> False | Some doc \<Rightarrow> submodules doc \<noteq> None))"

definition profile_submodules :: "profile option \<Rightarrow> (string \<times> scope) list" where
  "profile_submodules sparse_profile =
     (case sparse_profile of
        Some doc \<Rightarrow> (case submodules doc of Some m \<Rightarrow> m | None \<Rightarrow> [])
      | None \<Rightarrow> [])"

definition all_submodules :: "(string \<times> string) list" where
  "all_submodules =
     [(''decg-fe-monorepo'', ''apps/decg-fe-monorepo''),
      (''decg-be-monorepo'', ''apps/decg-be-monorepo''),
      (''decg-go-monorepo'', ''apps/decg-go-monorepo'')]"

definition target_submodules :: "profile option \<Rightarrow> (string \<times> string) list" where
  "target_submodules sparse_profile =
     (if has_submodules sparse_profile
      then filter (\<lambda>(name, relpath). map_of (profile_submodules sparse_profile) name \<noteq> None)
             all_submodules
      else all_submodules)"

definition skipped_submodules :: "profile option \<Rightarrow> string list" where
  "skipped_submodules sparse_profile =
     filter (\<lambda>name. map_of (profile_submodules sparse_profile) name = None)
       (map fst all_submodules)"

text \<open>The scope a submodule is given: from the profile, else from \<open>--include\<close>.\<close>

definition checkout_config ::
  "profile option \<Rightarrow> string list option \<Rightarrow> string \<Rightarrow> scope" where
  "checkout_config sparse_profile modules submodule_name =
     (if has_submodules sparse_profile then
        (case map_of (profile_submodules sparse_profile) submodule_name of
           Some config \<Rightarrow> config
         | None \<Rightarrow> \<lparr>include_paths = [], exclude_paths = []\<rparr>)
      else if modules \<noteq> None \<and> modules \<noteq> Some [] then
        \<lparr>include_paths = filter (\<lambda>m. take 5 m \<noteq> ''apps/'') (the modules),
         exclude_paths = []\<rparr>
      else \<lparr>include_paths = [], exclude_paths = []\<rparr>)"

text \<open>Step 1: the hub branch. An existing branch is checked out, a missing one created.\<close>

definition init_step_hub :: "'x env \<Rightarrow> path \<Rightarrow> string \<Rightarrow> string \<Rightarrow> ('x, unit) prog" where
  "init_step_hub env hub_root service version =
     (let workspace_branch = ''workspace/'' @ service @ ''-'' @ version in
      thenP (echo (Plain (Init (StepBanner 1))))
        (bindP (run_shell env (''git rev-parse --verify '' @ workspace_branch) hub_root False)
           (\<lambda>result.
              if returncode result = 0 then
                thenP (run_shell env (''git checkout '' @ workspace_branch) hub_root True)
                      (echo_info (Init (SwitchedToExisting workspace_branch)))
              else
                thenP (run_shell env (''git checkout -b '' @ workspace_branch) hub_root True)
                      (echo_success (Init (CreatedBranch workspace_branch))))))"

text \<open>Step 2: the body of the loop over the target submodules, and the loop.\<close>

definition init_submodule ::
  "'x env \<Rightarrow> path \<Rightarrow> profile option \<Rightarrow> string list option \<Rightarrow> string
     \<Rightarrow> string \<times> string \<Rightarrow> ('x, unit) prog" where
  "init_submodule env hub_root sparse_profile modules branch_name sub =
     (case sub of (submodule_name, submodule_relpath) \<Rightarrow>
      let submodule_path = joinpath hub_root submodule_relpath;
          config = checkout_config sparse_profile modules submodule_name in
      thenP (\<lambda>w. if \<not> path_exists (fs w) submodule_path
                 then thenP (run_shell env
                               (''git submodule update --init --depth 1 '' @ submodule_relpath)
                               hub_root True) (return ()) w
                 else return () w)
     (thenP (if include_paths config \<noteq> [] \<or> exclude_paths config \<noteq> []
             then apply_sparse_checkout env submodule_path config
             else echo (Plain (Init (FullCheckout submodule_name))))
        (bindP (run_shell env (''git rev-parse --verify '' @ branch_name) submodule_path False)
           (\<lambda>result.
              if returncode result = 0 then
                thenP (run_shell env (''git checkout '' @ branch_name) submodule_path True)
                      (return ())
              else
                thenP (run_shell env (''git checkout -b '' @ branch_name) submodule_path True)
                      (return ())))))"

text \<open>
  The loop body of \<open>init\<close> up to its branch step: the submodule is initialised when
  its directory is missing, then the sparse checkout is applied or the full checkout
  announced.
\<close>

definition submodule_setup ::
  "'x env \<Rightarrow> path \<Rightarrow> profile option \<Rightarrow> string list option \<Rightarrow> string \<times> string
     \<Rightarrow> ('x, unit) prog" where
  "submodule_setup env hub_root sparse_profile modules sub =
     (case sub of (submodule_name, submodule_relpath) \<Rightarrow>
      let submodule_path = joinpath hub_root submodule_relpath;
          config = checkout_config sparse_profile modules submodule_name in
      thenP (\<lambda>w. if \<not> path_exists (fs w) submodule_path
                 then thenP (run_shell env
                               (''git submodule update --init --depth 1 '' @ submodule_relpath)
                               hub_root True) (return ()) w
                 else return () w)
            (if include_paths config \<noteq> [] \<or> exclude_paths config \<noteq> []
             then apply_sparse_checkout env submodule_path config
             else echo (Plain (Init (FullCheckout submodule_name)))))"

definition init_step_submodules ::
  "'x env \<Rightarrow> path \<Rightarrow> profile option \<Rightarrow> string list option \<Rightarrow> string
     \<Rightarrow> ('x, unit) prog" where
  "init_step_submodules env hub_root sparse_profile modules branch_name =
     thenP (echo (Plain (Init (StepBanner 2))))
    (thenP (if has_submodules sparse_profile \<and> skipped_submodules sparse_profile \<noteq> []
            then echo_info (Init (SkippedSubmodules
                   (str_join '', '' (skipped_submodules sparse_profile))))
            else return ())
    (thenP (for_each (init_submodule env hub_root sparse_profile modules branch_name)
              (target_submodules sparse_profile))
           (echo_success (Init SubmodulesDone))))"

text \<open>Step 3: the documentation and release folders.\<close>

definition doc_folders :: "string list" where
  "doc_folders =
     [''01.requirements'', ''02.user-stories'', ''03.use-cases'', ''05.api-spec'',
      ''08.implementation-guide'', ''09.test-automation'']"

definition release_files :: "string list" where
  "release_files = [''RELEASE-NOTES.md'', ''VERSION-MATRIX.md'', ''CHANGELOG.md'']"

definition init_step_docs :: "path \<Rightarrow> string \<Rightarrow> string \<Rightarrow> ('x, unit) prog" where
  "init_step_docs hub_root service version =
     (let docs_path = joinpath (joinpath (joinpath hub_root ''docs'') service) version;
          releases_path = joinpath (joinpath (joinpath hub_root ''releases'') service) version in
      thenP (echo (Plain (Init (StepBanner 3))))
     (thenP (mkdir True True docs_path)
     (thenP (mkdir True True releases_path)
     (thenP (for_each (\<lambda>folder. mkdir False True (joinpath docs_path folder)) doc_folders)
     (thenP (for_each
               (\<lambda>filename w.
                  if \<not> path_exists (fs w) (joinpath releases_path filename)
                  then write_text (joinpath releases_path filename)
                         (Text (''# '' @ str_remove ''.md'' filename @ newline @ newline
                                  @ ''## ['' @ version @ '']'' @ newline @ newline)) w
                  else return () w)
               release_files)
            (echo_success (Init DocsDone)))))))"

text \<open>Step 4: the hint about the compose file.\<close>

definition init_step_docker :: "path \<Rightarrow> bool \<Rightarrow> ('x, unit) prog" where
  "init_step_docker hub_root skip_docker =
     (if \<not> skip_docker then
        thenP (echo (Plain (Init (StepBanner 4))))
          (\<lambda>w. if path_exists (fs w)
                     (joinpath (joinpath (joinpath hub_root ''scripts'') ''docker'')
                        ''docker-compose.dev.yml'')
                then echo_info (Init ComposeFound) w
                else echo_warning (Init ComposeMissing) w)
      else echo (Plain (Init StepDockerSkipped)))"

definition init_workspace ::
  "'x env \<Rightarrow> string \<Rightarrow> string \<Rightarrow> string list option \<Rightarrow> string option \<Rightarrow> bool
     \<Rightarrow> ('x, unit) prog" where
  "init_workspace env service version modules profile skip_docker =
     bindP (get_hub_root env) (\<lambda>hub_root.
     let branch_name = service @ ''/develop/'' @ version in
     thenP (echo (Plain (Init (InitBanner service version))))
    (thenP (echo (Plain (Ascii (replicate 50 CHR ''=''))))
    (bindP (load_sparse_profile env hub_root service version profile) (\<lambda>sparse_profile.
     thenP (if truthy sparse_profile then echo_info (Init (ProfileLoaded service version))
            else if modules \<noteq> None \<and> modules \<noteq> Some []
            then echo_info (Init (ModulesGiven (length (the modules))))
            else return ())
    (thenP (init_step_hub env hub_root service version)
    (thenP (init_step_submodules env hub_root sparse_profile modules branch_name)
    (thenP (init_step_docs hub_root service version)
    (thenP (init_step_docker hub_root skip_docker)
    (thenP (echo (Plain (Ascii (newline @ replicate 50 CHR ''=''))))
    (thenP (echo_success (Init (InitDone service version)))
           (echo (Plain (Init NextSteps)))))))))))))"

subsection \<open>branch create\<close>

definition repo_map :: "(string \<times> string) list" where
  "repo_map =
     [(''fe'', ''apps/decg-fe-monorepo''),
      (''be'', ''apps/decg-be-monorepo''),
      (''go'', ''apps/decg-go-monorepo'')]"

text \<open>\<open>repos or ["fe", "be"]\<close>.\<close>

definition target_repos :: "string list option \<Rightarrow> string list" where
  "target_repos repos =
     (if repos \<noteq> None \<and> repos \<noteq> Some [] then the repos else [''fe'', ''be''])"

text \<open>The loop body; each \<open>continue\<close> ends it early.\<close>

definition branch_create_repo :: "'x env \<Rightarrow> path \<Rightarrow> string \<Rightarrow> string \<Rightarrow> ('x, unit) prog" where
  "branch_create_repo env hub_root branch_name repo_key w =
     (case map_of repo_map repo_key of
        None \<Rightarrow> echo_warning (Branch (UnknownRepo repo_key)) w
      | Some relpath \<Rightarrow>
          (let repo_path = joinpath hub_root relpath in
           if \<not> path_exists (fs w) repo_path
           then echo_warning (Branch (RepoMissing relpath)) w
           else thenP (echo (Plain (Branch (RepoHeader relpath))))
               (thenP (run_shell env (''git checkout -b '' @ branch_name) repo_path True)
                      (echo_success (Branch (BranchCreated branch_name)))) w))"

definition branch_create ::
  "'x env \<Rightarrow> string \<Rightarrow> string \<Rightarrow> string list option \<Rightarrow> ('x, unit) prog" where
  "branch_create env task_id description repos =
     bindP (get_hub_root env) (\<lambda>hub_root.
     let branch_name = ''task/'' @ task_id @ ''-'' @ description in
     thenP (echo (Plain (Branch (BranchBanner branch_name))))
           (for_each (branch_create_repo env hub_root branch_name) (target_repos repos)))"

subsection \<open>docs init, release init\<close>

definition docs_init :: "'x env \<Rightarrow> string \<Rightarrow> string \<Rightarrow> ('x, unit) prog" where
  "docs_init env service version =
     bindP (get_hub_root env) (\<lambda>hub_root w.
     let docs_path = joinpath (joinpath (joinpath hub_root ''docs'') service) version in
     if path_exists (fs w) docs_path
     then echo_warning (Docs (AlreadyExists ''docs'' service version)) w
     else thenP (echo (Plain (Docs (DocsBanner service version))))
         (thenP (mkdir True False docs_path)
         (thenP (for_each
                   (\<lambda>folder.
                      thenP (mkdir False False (joinpath docs_path folder))
                            (write_text (joinpath (joinpath docs_path folder) ''README.md'')
                               (DocsTemplate folder)))
                   doc_folders)
                (echo_success (Docs (DocsCreated service version))))) w)"

definition release_init :: "'x env \<Rightarrow> string \<Rightarrow> string \<Rightarrow> ('x, unit) prog" where
  "release_init env service version =
     bindP (get_hub_root env) (\<lambda>hub_root w.
     let releases_path = joinpath (joinpath (joinpath hub_root ''releases'') service) version in
     if path_exists (fs w) releases_path
     then echo_warning (Docs (AlreadyExists ''releases'' service version)) w
     else thenP (echo (Plain (Docs (ReleaseBanner service version))))
         (thenP (mkdir True False releases_path)
         (thenP (write_text (joinpath releases_path ''RELEASE-NOTES.md'')
                   (ReleaseNotesTemplate version))
         (thenP (write_text (joinpath releases_path ''VERSION-MATRIX.md'')
                   (VersionMatrixTemplate version))
         (thenP (write_text (joinpath releases_path ''CHANGELOG.md'')
                   (ChangelogTemplate version))
                (echo_success (Docs (ReleaseCreated service version))))))) w)"

subsection \<open>docs diff\<close>

text \<open>
  \<open>name\<close> matches \<open>*.md\<close>; \<open>rglob_md files d\<close> are the entries below \<open>d\<close> whose
  name does; \<open>relative_to d\<close> cuts the leading \<open>d\<close> off.
\<close>

definition matches_md :: "string \<Rightarrow> bool" where
  "matches_md name = (3 \<le> length name \<and> drop (length name - 3) name = ''.md'')"

definition rglob_md :: "filesystem \<Rightarrow> path \<Rightarrow> path list" where
  "rglob_md files d =
     filter (\<lambda>f. length d < length f \<and> take (length d) f = d \<and> matches_md (last f))
       (map fst files)"

definition relative_to :: "path \<Rightarrow> path \<Rightarrow> path" where
  "relative_to d f = drop (length d) f"

text \<open>\<open>set(f.relative_to(d) for f in d.rglob("*.md"))\<close>.\<close>

definition md_files :: "filesystem \<Rightarrow> path \<Rightarrow> path set" where
  "md_files files d = set (map (relative_to d) (rglob_md files d))"

definition docs_diff :: "'x env \<Rightarrow> string \<Rightarrow> string \<Rightarrow> string \<Rightarrow> ('x, unit) prog" where
  "docs_diff env service v1 v2 =
     bindP (get_hub_root env) (\<lambda>hub_root w.
     let path1 = joinpath (joinpath (joinpath hub_root ''docs'') service) v1;
         path2 = joinpath (joinpath (joinpath hub_root ''docs'') service) v2 in
     if \<not> path_exists (fs w) path1 \<or> \<not> path_exists (fs w) path2
     then thenP (echo (Plain (Docs VersionPathMissing))) (raise (Exit 1)) w
     else
       (let files1 = md_files (fs w) path1;
            files2 = md_files (fs w) path2;
            added = files2 - files1;
            removed = files1 - files2;
            common = files1 \<inter> files2 in
        thenP (echo (Plain (Docs (DiffBanner v1 v2))))
       (thenP (if added \<noteq> {} then
                 thenP (echo (Plain (Docs (AddedHeader (card added)))))
                       (for_each (\<lambda>f. echo (Plain (Docs (AddedFile f))))
                          (sorted_list_of_set added))
               else return ())
       (thenP (if removed \<noteq> {} then
                 thenP (echo (Plain (Docs (RemovedHeader (card removed)))))
                       (for_each (\<lambda>f. echo (Plain (Docs (RemovedFile f))))
                          (sorted_list_of_set removed))
               else return ())
              (echo (Plain (Docs (CommonCount (card common))))))) w))"

subsection \<open>Observing traces\<close>

text \<open>
  The effects that belong to sparse checkout: its git commands, the pattern file and its
  messages.
\<close>

fun sparse_effect :: "effect \<Rightarrow> bool" where
  "sparse_effect (Run c d) = (take 19 c = ''git sparse-checkout'' \<or> c = ''git read-tree -mu HEAD'')"
| "sparse_effect (WriteText p c) = True"
| "sparse_effect (Echo (Plain (Sparse m))) = True"
| "sparse_effect e = False"

text \<open>\<open>emits P m\<close>: whatever the world, every effect that \<open>m\<close> performs satisfies \<open>P\<close>.\<close>

definition emits :: "(effect \<Rightarrow> bool) \<Rightarrow> ('x, 'a) prog \<Rightarrow> bool" where
  "emits P m = (\<forall>w. list_all P (trace_of (m w)))"

subsection \<open>Example environments\<close>

text \<open>
  A shell in which every command succeeds and changes nothing, a parser that knows one
  profile document, and a small hub.
\<close>

definition fe_only_profile :: profile where
  "fe_only_profile =
     \<lparr>submodules = Some [(''decg-fe-monorepo'',
                            \<lparr>include_paths = [''apps/x''], exclude_paths = []\<rparr>)],
      other_keys = []\<rparr>"

definition demo_load :: "content \<Rightarrow> error + profile option" where
  "demo_load c =
     (if c = Text ''submodules: {decg-fe-monorepo: {include: [apps/x]}}''
      then Inr (Some fe_only_profile) else Inr None)"

definition quiet_env :: "unit env" where
  "quiet_env =
     \<lparr>shell = (\<lambda>cmd cwd w. (\<lparr>returncode = 0, stdout = [], stderr = []\<rparr>, w)),
      safe_load = demo_load,
      getcwd = [''work'', ''hub'']\<rparr>"

text \<open>
  A shell in which the frontend submodule has no branch yet and refuses to create one,
  and the go submodule cannot be initialised; everything else succeeds.
\<close>

definition failing_env :: "unit env" where
  "failing_env =
     \<lparr>shell = (\<lambda>cmd cwd w.
         (\<lparr>returncode =
             (if cwd = [''work'', ''hub'', ''apps'', ''decg-fe-monorepo'']
              then (if take 13 cmd = ''git rev-parse'' then 1
                    else if take 12 cmd = ''git checkout'' then 128 else 0)
              else if cmd = ''git submodule update --init --depth 1 apps/decg-go-monorepo''
              then 1 else 0),
           stdout = [], stderr = []\<rparr>, w)),
      safe_load = demo_load,
      getcwd = [''work'', ''hub'']\<rparr>"

definition demo_world :: "unit world" where
  "demo_world =
     \<lparr>fs = [([''work''], Dir),
            ([''work'', ''hub''], Dir),
            ([''work'', ''hub'', ''.gitmodules''], File (Text [])),
            ([''work'', ''hub'', ''apps''], Dir),
            ([''work'', ''hub'', ''apps'', ''decg-fe-monorepo''], Dir),
            ([''work'', ''hub'', ''apps'', ''decg-fe-monorepo'', ''.git''], Dir),
            ([''work'', ''hub'', ''apps'', ''decg-fe-monorepo'', ''.git'', ''info''], Dir),
            ([''work'', ''hub'', ''configs''], Dir),
            ([''work'', ''hub'', ''configs'', ''sparse-profiles''], Dir),
            ([''work'', ''hub'', ''configs'', ''sparse-profiles'', ''fe-only.yaml''],
             File (Text ''submodules: {decg-fe-monorepo: {include: [apps/x]}}'')),
            ([''work'', ''hub'', ''docs''], Dir),
            ([''work'', ''hub'', ''docs'', ''svc''], Dir),
            ([''work'', ''hub'', ''docs'', ''svc'', ''v1''], Dir),
            ([''work'', ''hub'', ''docs'', ''svc'', ''v1'', ''a.md''], File (Text ''# a'')),
            ([''work'', ''hub'', ''docs'', ''svc'', ''v1'', ''b.md''], File (Text ''# b'')),
            ([''work'', ''hub'', ''docs'', ''svc'', ''v2''], Dir),
            ([''work'', ''hub'', ''docs'', ''svc'', ''v2'', ''b.md''], File (Text ''# b'')),
            ([''work'', ''hub'', ''docs'', ''svc'', ''v2'', ''c.md''], File (Text ''# c'')),
            ([''work'', ''hub'', ''docs'', ''svc'', ''v2'', ''notes.txt''], File (Text ''n'')),
            ([''work'', ''hub'', ''releases''], Dir),
            ([''work'', ''hub'', ''releases'', ''svc''], Dir),
            ([''work'', ''hub'', ''releases'', ''svc'', ''v1''], Dir)],
      ext = ()\<rparr>"

text \<open>
  The effects that touch one submodule: a command run inside it, the command run in the
  hub that initialises it, a file written below it, and the two messages that name it.
\<close>

definition concerns_submodule :: "path \<Rightarrow> string \<times> string \<Rightarrow> effect \<Rightarrow> bool" where
  "concerns_submodule hub_root sub e =
     (case e of
        Run c d \<Rightarrow>
          d = joinpath hub_root (snd sub)
          \<or> (d = hub_root \<and> c = ''git submodule update --init --depth 1 '' @ snd sub)
      | WriteText p c \<Rightarrow>
          take (length (joinpath hub_root (snd sub))) p = joinpath hub_root (snd sub)
      | Echo m \<Rightarrow>
          m = Plain (Init (FullCheckout (fst sub)))
          \<or> m = Plain (Sparse (SparseEnable (path_name (joinpath hub_root (snd sub)))))
      | _ \<Rightarrow> False)"

text \<open>
  \<open>exits_by S m\<close>: whenever \<open>m\<close> ends in \<open>typer.Exit\<close>, the exit code is not 0 and
  the last command that \<open>m\<close> ran is one of \<open>S\<close>.
\<close>

definition exits_by :: "string set \<Rightarrow> ('x, 'a) prog \<Rightarrow> bool" where
  "exits_by S m =
     (\<forall>w rc. result_of (m w) = Inl (Exit rc) \<longrightarrow>
        rc \<noteq> 0 \<and> commands (trace_of (m w)) \<noteq> [] \<and> last (commands (trace_of (m w))) \<in> S)"

text \<open>A shell in which every sparse-checkout command fails and every other one succeeds.\<close>

definition sparse_failing_env :: "unit env" where
  "sparse_failing_env =
     \<lparr>shell = (\<lambda>cmd cwd w.
         (\<lparr>returncode = (if take 19 cmd = ''git sparse-checkout'' then 1 else 0),
           stdout = [], stderr = ''fatal''\<rparr>, w)),
      safe_load = demo_load,
      getcwd = [''work'', ''hub'']\<rparr>"

text \<open>
  A shell in which every branch asked for exists, and the frontend submodule refuses to
  check one out; everything else succeeds.
\<close>

definition checkout_failing_env :: "unit env" where
  "checkout_failing_env =
     \<lparr>shell = (\<lambda>cmd cwd w.
         (\<lparr>returncode =
             (if cwd = [''work'', ''hub'', ''apps'', ''decg-fe-monorepo'']
                 \<and> take 13 cmd = ''git checkout '' then 1 else 0),
           stdout = [], stderr = ''error''\<rparr>, w)),
      safe_load = demo_load,
      getcwd = [''work'', ''hub'']\<rparr>"

section \<open>Properties\<close>

subsection \<open>Running programs\<close>

lemma trace_of_simp [simp]: "trace_of (r, w, t) = t"
  by (simp add: trace_of_def)

lemma result_of_simp [simp]: "result_of (r, w, t) = r"
  by (simp add: result_of_def)

lemma world_of_simp [simp]: "world_of (r, w, t) = w"
  by (simp add: world_of_def)

lemma emits_return: "emits P (return a)"
  by (simp add: emits_def return_def)

lemma emits_raise: "emits P (raise e)"
  by (simp add: emits_def raise_def)

lemma emits_echo: "P (Echo m) \<Longrightarrow> emits P (echo m)"
  by (simp add: emits_def echo_def)

lemma emits_run_shell:
  "P (Echo (Plain (Cmd c))) \<Longrightarrow> P (Run c d) \<Longrightarrow> (\<And>s. P (EchoErr (Plain (CmdFailed s))))
     \<Longrightarrow> emits P (run_shell env c d chk)"
  by (simp add: emits_def run_shell_def split: prod.splits)

lemma emits_write_text: "P (WriteText p c) \<Longrightarrow> emits P (write_text p c)"
  by (simp add: emits_def write_text_def)

lemma emits_mkdir: "P (Mkdir p) \<Longrightarrow> emits P (mkdir parents exist_ok p)"
  by (simp add: emits_def mkdir_def split: sum.splits)

lemma emits_bindP: "emits P m \<Longrightarrow> (\<And>a. emits P (f a)) \<Longrightarrow> emits P (bindP m f)"
  unfolding emits_def bindP_def
proof
  fix w
  assume m: "\<forall>w. list_all P (trace_of (m w))" and f: "\<And>a. \<forall>w. list_all P (trace_of (f a w))"
  obtain r w1 t1 where mw: "m w = (r, w1, t1)"
    by (cases "m w") auto
  with m have t1: "list_all P t1"
    by (metis trace_of_simp)
  show "list_all P (trace_of (case m w of
          (Inl e, w1, t1) \<Rightarrow> (Inl e, w1, t1)
        | (Inr a, w1, t1) \<Rightarrow> (case f a w1 of (r, w2, t2) \<Rightarrow> (r, w2, t1 @ t2))))"
  proof (cases r)
    case (Inl e)
    with mw t1 show ?thesis by simp
  next
    case (Inr a)
    obtain r2 w2 t2 where fw: "f a w1 = (r2, w2, t2)"
      by (cases "f a w1") auto
    with f have "list_all P t2"
      by (metis trace_of_simp)
    with mw t1 Inr fw show ?thesis by simp
  qed
qed

lemma emits_thenP: "emits P m \<Longrightarrow> emits P k \<Longrightarrow> emits P (thenP m k)"
  by (simp add: thenP_def emits_bindP)

lemma emits_for_each: "(\<And>x. x \<in> set xs \<Longrightarrow> emits P (body x)) \<Longrightarrow> emits P (for_each body xs)"
proof (induction xs)
  case Nil
  show ?case by (simp add: emits_def return_def)
next
  case (Cons x xs)
  have "emits P (thenP (body x) (for_each body xs))"
    by (rule emits_thenP) (simp_all add: Cons)
  then show ?case by (simp add: emits_def)
qed

lemma emits_if: "(c \<Longrightarrow> emits P a) \<Longrightarrow> (\<not> c \<Longrightarrow> emits P b) \<Longrightarrow> emits P (if c then a else b)"
  by simp

lemma emits_branch: "emits P a \<Longrightarrow> emits P b \<Longrightarrow> emits P (\<lambda>w. if C w then a w else b w)"
  by (simp add: emits_def)

lemma thenP_apply:
  "thenP m k w =
     (case m w of
        (Inl e, w1, t1) \<Rightarrow> (Inl e, w1, t1)
      | (Inr a, w1, t1) \<Rightarrow> (case k w1 of (r, w2, t2) \<Rightarrow> (r, w2, t1 @ t2)))"
  by (simp add: thenP_def bindP_def)

lemma echo_thenP:
  "thenP (echo m) k w = (case k w of (r, w2, t2) \<Rightarrow> (r, w2, Echo m # t2))"
  by (simp add: thenP_apply echo_def)

lemma run_shell_unchecked:
  "run_shell env cmd cwd False w =
     (Inr (fst (shell env cmd cwd w)), snd (shell env cmd cwd w),
      [Echo (Plain (Cmd cmd)), Run cmd cwd])"
  by (simp add: run_shell_def split: prod.splits)

lemma run_shell_unchecked_thenP:
  "thenP (run_shell env cmd cwd False) k w =
     (case k (snd (shell env cmd cwd w)) of
        (r, w2, t2) \<Rightarrow> (r, w2, Echo (Plain (Cmd cmd)) # Run cmd cwd # t2))"
  by (simp add: thenP_apply run_shell_unchecked)

lemma for_each_echo:
  "for_each (\<lambda>p. echo (f p)) xs w = (Inr (), w, map (\<lambda>p. Echo (f p)) xs)"
  by (induction xs) (simp_all add: return_def echo_thenP)

lemma foldl_snoc_map: "foldl (\<lambda>acc p. acc @ [f p]) acc xs = acc @ map f xs"
  by (induction xs arbitrary: acc) simp_all

lemma exclude_patterns_eq:
  "exclude_patterns excl = ''/*'' # map (\<lambda>p. ''!/'' @ p) excl"
  unfolding exclude_patterns_def foldl_snoc_map by simp

lemma apply_include:
  assumes "include_paths config \<noteq> []"
  shows "apply_sparse_checkout env sp config w =
     (Inr (),
      snd (shell env (''git sparse-checkout set '' @ str_join '' '' (include_paths config)
                        @ '' packages/'') sp
             (snd (shell env ''git sparse-checkout init --cone'' sp w))),
      [Echo (Plain (Sparse (SparseEnable (path_name sp)))),
       Echo (Plain (Cmd ''git sparse-checkout init --cone'')),
       Run ''git sparse-checkout init --cone'' sp,
       Echo (Plain (Cmd (''git sparse-checkout set '' @ str_join '' '' (include_paths config)
                           @ '' packages/''))),
       Run (''git sparse-checkout set '' @ str_join '' '' (include_paths config)
              @ '' packages/'') sp]
      @ map (\<lambda>p. Echo (Plain (Sparse (IncludedPath p)))) (include_paths config))"
  using assms
  by (simp add: apply_sparse_checkout_def echo_thenP run_shell_unchecked_thenP for_each_echo)


lemma write_text_thenP:
  "thenP (write_text p c) k w =
     (if lookup (fs w) (parent p) = Some Dir \<and> lookup (fs w) p \<noteq> Some Dir \<and> p \<noteq> []
      then (case k (w\<lparr>fs := AList.update p (File c) (fs w)\<rparr>) of
              (r, w2, t2) \<Rightarrow> (r, w2, WriteText p c # t2))
      else (Inl OSError, w, [WriteText p c]))"
  by (simp add: thenP_apply write_text_def)

lemma apply_exclude:
  assumes "include_paths config = []" and "exclude_paths config \<noteq> []"
  shows "apply_sparse_checkout env sp config w =
     (let w1 = snd (shell env ''git sparse-checkout init --no-cone'' sp w);
          sparse_file = sp @ [''.git'', ''info'', ''sparse-checkout''];
          patterns = ''/*'' # map (\<lambda>p. ''!/'' @ p) (exclude_paths config);
          text = Text (str_join newline patterns @ newline);
          start = [Echo (Plain (Sparse (SparseEnable (path_name sp)))),
                   Echo (Plain (Cmd ''git sparse-checkout init --no-cone'')),
                   Run ''git sparse-checkout init --no-cone'' sp,
                   WriteText sparse_file text]
      in if lookup (fs w1) (parent sparse_file) = Some Dir
            \<and> lookup (fs w1) sparse_file \<noteq> Some Dir
         then (Inr (),
               snd (shell env ''git read-tree -mu HEAD'' sp
                      (w1\<lparr>fs := AList.update sparse_file (File text) (fs w1)\<rparr>)),
               start @
               [Echo (Plain (Cmd ''git read-tree -mu HEAD'')),
                Run ''git read-tree -mu HEAD'' sp,
                Echo (Plain (Sparse AllIncludedWithExclusions))]
               @ map (\<lambda>p. Echo (Plain (Sparse (ExcludedPath p)))) (exclude_paths config))
         else (Inl OSError, w1, start))"
  using assms
  by (simp add: apply_sparse_checkout_def echo_thenP run_shell_unchecked_thenP for_each_echo
      write_text_thenP exclude_patterns_eq Let_def)

lemma apply_noop:
  assumes "include_paths config = []" and "exclude_paths config = []"
  shows "apply_sparse_checkout env sp config w =
     (Inr (), w, [Echo (Plain (Sparse (SparseEnable (path_name sp))))])"
  using assms by (simp add: apply_sparse_checkout_def echo_thenP return_def)

lemma init_submodule_full_checkout:
  assumes "include_paths (checkout_config prof mods name) = []"
    and "exclude_paths (checkout_config prof mods name) = []"
  shows "emits (\<lambda>e. \<not> sparse_effect e) (init_submodule env hub prof mods bn (name, rel))"
  unfolding init_submodule_def Let_def prod.case
  by (intro emits_thenP emits_branch emits_bindP emits_if emits_run_shell emits_echo emits_return)
     (simp_all add: assms)

subsection \<open>The sparse-checkout applier\<close>

text \<open>
  Claim C6. For every scope with a non-empty include list, the applier enables cone-style
  sparse checkout and then sets the checkout set with one command whose arguments are the
  listed paths, in order, followed by \<open>packages/\<close>; it then echoes each listed path.
  Both commands run unchecked, so the applier returns normally whatever they return.
\<close>

theorem include_mode_sets_paths:
  assumes "include_paths config \<noteq> []"
  shows "result_of (apply_sparse_checkout env sp config w) = Inr () \<and>
     trace_of (apply_sparse_checkout env sp config w) =
       [Echo (Plain (Sparse (SparseEnable (path_name sp)))),
        Echo (Plain (Cmd ''git sparse-checkout init --cone'')),
        Run ''git sparse-checkout init --cone'' sp,
        Echo (Plain (Cmd (''git sparse-checkout set '' @ str_join '' '' (include_paths config)
                            @ '' packages/''))),
        Run (''git sparse-checkout set '' @ str_join '' '' (include_paths config)
               @ '' packages/'') sp]
       @ map (\<lambda>p. Echo (Plain (Sparse (IncludedPath p)))) (include_paths config)"
  by (simp add: apply_include [OF assms])

theorem include_mode_sets_paths_witness:
  "include_paths \<lparr>include_paths = [''apps/x'', ''libs/y''], exclude_paths = []\<rparr> \<noteq> [] \<and>
   result_of (apply_sparse_checkout quiet_env [''work'', ''hub'', ''apps'', ''decg-fe-monorepo'']
      \<lparr>include_paths = [''apps/x'', ''libs/y''], exclude_paths = []\<rparr> demo_world) = Inr () \<and>
   trace_of (apply_sparse_checkout quiet_env [''work'', ''hub'', ''apps'', ''decg-fe-monorepo'']
      \<lparr>include_paths = [''apps/x'', ''libs/y''], exclude_paths = []\<rparr> demo_world) =
     [Echo (Plain (Sparse (SparseEnable ''decg-fe-monorepo''))),
      Echo (Plain (Cmd ''git sparse-checkout init --cone'')),
      Run ''git sparse-checkout init --cone'' [''work'', ''hub'', ''apps'', ''decg-fe-monorepo''],
      Echo (Plain (Cmd ''git sparse-checkout set apps/x libs/y packages/'')),
      Run ''git sparse-checkout set apps/x libs/y packages/''
        [''work'', ''hub'', ''apps'', ''decg-fe-monorepo''],
      Echo (Plain (Sparse (IncludedPath ''apps/x''))),
      Echo (Plain (Sparse (IncludedPath ''libs/y'')))]"
  using include_mode_sets_paths [of "\<lparr>include_paths = [''apps/x'', ''libs/y''], exclude_paths = []\<rparr>"
      quiet_env "[''work'', ''hub'', ''apps'', ''decg-fe-monorepo'']" demo_world]
  by (simp add: path_name_def)

text \<open>
  Claim C1. Exactly one mode is active. With a non-empty include list the applier behaves
  as if the exclude list were empty: it runs the cone commands and writes no pattern
  file. With an empty include list and a non-empty exclude list it starts with the
  non-cone initialisation, runs no cone command and writes the pattern file. With both
  empty, the loop body of \<open>init\<close> performs no sparse-checkout effect at all.
\<close>

theorem scope_mode_selection:
  "(include_paths config \<noteq> [] \<longrightarrow>
      apply_sparse_checkout env sp config w
        = apply_sparse_checkout env sp (config\<lparr>exclude_paths := []\<rparr>) w
      \<and> commands (trace_of (apply_sparse_checkout env sp config w)) =
          [''git sparse-checkout init --cone'',
           ''git sparse-checkout set '' @ str_join '' '' (include_paths config) @ '' packages/'']
      \<and> writes (trace_of (apply_sparse_checkout env sp config w)) = [])
   \<and> (include_paths config = [] \<and> exclude_paths config \<noteq> [] \<longrightarrow>
      take 1 (commands (trace_of (apply_sparse_checkout env sp config w)))
        = [''git sparse-checkout init --no-cone'']
      \<and> set (commands (trace_of (apply_sparse_checkout env sp config w)))
          \<subseteq> {''git sparse-checkout init --no-cone'', ''git read-tree -mu HEAD''}
      \<and> map fst (writes (trace_of (apply_sparse_checkout env sp config w)))
          = [sp @ [''.git'', ''info'', ''sparse-checkout'']])
   \<and> (include_paths (checkout_config prof mods name) = []
        \<and> exclude_paths (checkout_config prof mods name) = [] \<longrightarrow>
      emits (\<lambda>e. \<not> sparse_effect e) (init_submodule env hub prof mods bn (name, rel)))"
proof (intro conjI impI)
  assume inc: "include_paths config \<noteq> []"
  then have inc': "include_paths (config\<lparr>exclude_paths := []\<rparr>) \<noteq> []"
    by simp
  show "apply_sparse_checkout env sp config w
      = apply_sparse_checkout env sp (config\<lparr>exclude_paths := []\<rparr>) w"
    by (simp add: apply_include [OF inc] apply_include [OF inc'])
  have cmds: "commands (map (\<lambda>p. Echo (f p)) xs) = []" for f :: "string \<Rightarrow> msg" and xs
    by (induction xs) simp_all
  show "commands (trace_of (apply_sparse_checkout env sp config w)) =
      [''git sparse-checkout init --cone'',
       ''git sparse-checkout set '' @ str_join '' '' (include_paths config) @ '' packages/'']"
    by (simp add: apply_include [OF inc] cmds)
  have wr: "writes (map (\<lambda>p. Echo (f p)) xs) = []" for f :: "string \<Rightarrow> msg" and xs
    by (induction xs) simp_all
  show "writes (trace_of (apply_sparse_checkout env sp config w)) = []"
    by (simp add: apply_include [OF inc] wr)
next
  assume exc: "include_paths config = [] \<and> exclude_paths config \<noteq> []"
  have cmds: "commands (ys @ map (\<lambda>p. Echo (f p)) xs) = commands ys"
    for f :: "string \<Rightarrow> msg" and xs ys
    by (induction ys rule: commands.induct) (induction xs, simp_all)
  have wr: "writes (ys @ map (\<lambda>p. Echo (f p)) xs) = writes ys"
    for f :: "string \<Rightarrow> msg" and xs ys
    by (induction ys rule: writes.induct) (induction xs, simp_all)
  note ex = apply_exclude [of config env sp w]
  show "take 1 (commands (trace_of (apply_sparse_checkout env sp config w)))
      = [''git sparse-checkout init --no-cone'']"
    using exc by (simp add: ex Let_def)
  show "set (commands (trace_of (apply_sparse_checkout env sp config w)))
      \<subseteq> {''git sparse-checkout init --no-cone'', ''git read-tree -mu HEAD''}"
    using exc cmds [of "[Echo (Plain (Cmd ''git read-tree -mu HEAD'')),
        Run ''git read-tree -mu HEAD'' sp, Echo (Plain (Sparse AllIncludedWithExclusions))]"]
    by (simp add: ex Let_def)
  show "map fst (writes (trace_of (apply_sparse_checkout env sp config w)))
      = [sp @ [''.git'', ''info'', ''sparse-checkout'']]"
    using exc wr [of "[Echo (Plain (Cmd ''git read-tree -mu HEAD'')),
        Run ''git read-tree -mu HEAD'' sp, Echo (Plain (Sparse AllIncludedWithExclusions))]"]
    by (simp add: ex Let_def)
next
  assume "include_paths (checkout_config prof mods name) = []
      \<and> exclude_paths (checkout_config prof mods name) = []"
  then show "emits (\<lambda>e. \<not> sparse_effect e) (init_submodule env hub prof mods bn (name, rel))"
    by (simp add: init_submodule_full_checkout)
qed

theorem scope_mode_selection_witness:
  "(include_paths \<lparr>include_paths = [''apps/x''], exclude_paths = [''secrets/'']\<rparr> \<noteq> []
    \<and> commands (trace_of (apply_sparse_checkout quiet_env
          [''work'', ''hub'', ''apps'', ''decg-fe-monorepo'']
          \<lparr>include_paths = [''apps/x''], exclude_paths = [''secrets/'']\<rparr> demo_world)) =
        [''git sparse-checkout init --cone'', ''git sparse-checkout set apps/x packages/''])
   \<and> (include_paths \<lparr>include_paths = [], exclude_paths = [''secrets/'']\<rparr> = []
    \<and> exclude_paths \<lparr>include_paths = [], exclude_paths = [''secrets/'']\<rparr> \<noteq> []
    \<and> take 1 (commands (trace_of (apply_sparse_checkout quiet_env
          [''work'', ''hub'', ''apps'', ''decg-fe-monorepo'']
          \<lparr>include_paths = [], exclude_paths = [''secrets/'']\<rparr> demo_world))) =
        [''git sparse-checkout init --no-cone''])
   \<and> (include_paths (checkout_config None None ''decg-fe-monorepo'') = []
    \<and> exclude_paths (checkout_config None None ''decg-fe-monorepo'') = []
    \<and> emits (\<lambda>e. \<not> sparse_effect e)
          (init_submodule quiet_env [''work'', ''hub''] None None ''svc/develop/v1''
             (''decg-fe-monorepo'', ''apps/decg-fe-monorepo'')))"
proof -
  let ?fe = "[''work'', ''hub'', ''apps'', ''decg-fe-monorepo'']"
  let ?a = "\<lparr>include_paths = [''apps/x''], exclude_paths = [''secrets/'']\<rparr>"
  let ?b = "\<lparr>include_paths = [], exclude_paths = [''secrets/'']\<rparr>"
  have a: "include_paths ?a \<noteq> []"
    by simp
  have b: "include_paths ?b = [] \<and> exclude_paths ?b \<noteq> []"
    by simp
  have c: "include_paths (checkout_config None None ''decg-fe-monorepo'') = []
      \<and> exclude_paths (checkout_config None None ''decg-fe-monorepo'') = []"
    by (simp add: checkout_config_def has_submodules_def truthy_def)
  have "commands (trace_of (apply_sparse_checkout quiet_env ?fe ?a demo_world)) =
      [''git sparse-checkout init --cone'', ''git sparse-checkout set apps/x packages/'']"
    using scope_mode_selection [where config = ?a and env = quiet_env and sp = ?fe
        and w = demo_world, THEN conjunct1, rule_format, OF a, THEN conjunct2, THEN conjunct1]
    by simp
  moreover have "take 1 (commands (trace_of (apply_sparse_checkout quiet_env ?fe ?b demo_world)))
      = [''git sparse-checkout init --no-cone'']"
    using scope_mode_selection [where config = ?b and env = quiet_env and sp = ?fe
        and w = demo_world, THEN conjunct2, THEN conjunct1, rule_format, OF b, THEN conjunct1]
    by simp
  moreover have "emits (\<lambda>e. \<not> sparse_effect e)
      (init_submodule quiet_env [''work'', ''hub''] None None ''svc/develop/v1''
         (''decg-fe-monorepo'', ''apps/decg-fe-monorepo''))"
    using scope_mode_selection [where prof = None and mods = None
        and name = "''decg-fe-monorepo''" and env = quiet_env and hub = "[''work'', ''hub'']"
        and bn = "''svc/develop/v1''" and rel = "''apps/decg-fe-monorepo''",
        THEN conjunct2, THEN conjunct2, rule_format, OF c]
    by simp
  ultimately show ?thesis
    using a b c by simp
qed

lemma split_on_no_sep: "c \<notin> set s \<Longrightarrow> split_on c s = [s]"
  by (induction s) auto

lemma split_on_append_sep:
  "c \<notin> set s \<Longrightarrow> split_on c (s @ c # rest) = s # split_on c rest"
  by (induction s) auto

lemma split_on_str_join:
  "xs \<noteq> [] \<Longrightarrow> \<forall>x \<in> set xs. c \<notin> set x \<Longrightarrow> split_on c (str_join [c] xs) = xs"
proof (induction "[c]" xs rule: str_join.induct)
  case 1
  then show ?case by simp
next
  case (2 x)
  then show ?case by (simp add: split_on_no_sep)
next
  case (3 x y ys)
  then show ?case by (simp add: split_on_append_sep)
qed

lemma commands_append: "commands (xs @ ys) = commands xs @ commands ys"
  by (induction xs rule: commands.induct) simp_all

lemma writes_append: "writes (xs @ ys) = writes xs @ writes ys"
  by (induction xs rule: writes.induct) simp_all

lemma commands_map_echo: "commands (map (\<lambda>p. Echo (f p)) xs) = []"
  by (induction xs) simp_all

lemma writes_map_echo: "writes (map (\<lambda>p. Echo (f p)) xs) = []"
  by (induction xs) simp_all

text \<open>
  Claim C2, as amended. The claim speaks of every scope with a non-empty exclude list, but
  a scope whose include list is non-empty as well is applied in include mode and no
  pattern file is written (the counterexample below). For a scope with an empty include
  list and a non-empty exclude list, the applier writes the pattern file
  \<open>.git/info/sparse-checkout\<close> whose text is the lines \<open>/*\<close> and then
  \<open>!/<path>\<close> for each excluded path in the order listed, each line ended by a
  newline; cutting the text at its newlines gives back exactly that sequence when no
  path contains a newline. Whenever the applier returns normally, the write is followed
  by \<open>git read-tree -mu HEAD\<close>.
\<close>

theorem exclude_mode_pattern_file:
  assumes "include_paths config = []" and "exclude_paths config \<noteq> []"
  shows
    "writes (trace_of (apply_sparse_checkout env sp config w)) =
       [(sp @ [''.git'', ''info'', ''sparse-checkout''],
         Text (str_join newline (''/*'' # map (\<lambda>p. ''!/'' @ p) (exclude_paths config))
                 @ newline))]
     \<and> ((\<forall>p \<in> set (exclude_paths config). CHR 0x0A \<notin> set p) \<longrightarrow>
          split_on (CHR 0x0A)
            (str_join newline (''/*'' # map (\<lambda>p. ''!/'' @ p) (exclude_paths config)))
          = ''/*'' # map (\<lambda>p. ''!/'' @ p) (exclude_paths config))
     \<and> (result_of (apply_sparse_checkout env sp config w) = Inr () \<longrightarrow>
          trace_of (apply_sparse_checkout env sp config w) =
            [Echo (Plain (Sparse (SparseEnable (path_name sp)))),
             Echo (Plain (Cmd ''git sparse-checkout init --no-cone'')),
             Run ''git sparse-checkout init --no-cone'' sp,
             WriteText (sp @ [''.git'', ''info'', ''sparse-checkout''])
               (Text (str_join newline
                        (''/*'' # map (\<lambda>p. ''!/'' @ p) (exclude_paths config)) @ newline)),
             Echo (Plain (Cmd ''git read-tree -mu HEAD'')),
             Run ''git read-tree -mu HEAD'' sp,
             Echo (Plain (Sparse AllIncludedWithExclusions))]
            @ map (\<lambda>p. Echo (Plain (Sparse (ExcludedPath p)))) (exclude_paths config))"
proof (intro conjI impI)
  note ex = apply_exclude [OF assms, of env sp w]
  show "writes (trace_of (apply_sparse_checkout env sp config w)) =
       [(sp @ [''.git'', ''info'', ''sparse-checkout''],
         Text (str_join newline (''/*'' # map (\<lambda>p. ''!/'' @ p) (exclude_paths config))
                 @ newline))]"
    by (simp add: ex Let_def writes_map_echo)
  show "trace_of (apply_sparse_checkout env sp config w) =
            [Echo (Plain (Sparse (SparseEnable (path_name sp)))),
             Echo (Plain (Cmd ''git sparse-checkout init --no-cone'')),
             Run ''git sparse-checkout init --no-cone'' sp,
             WriteText (sp @ [''.git'', ''info'', ''sparse-checkout''])
               (Text (str_join newline
                        (''/*'' # map (\<lambda>p. ''!/'' @ p) (exclude_paths config)) @ newline)),
             Echo (Plain (Cmd ''git read-tree -mu HEAD'')),
             Run ''git read-tree -mu HEAD'' sp,
             Echo (Plain (Sparse AllIncludedWithExclusions))]
            @ map (\<lambda>p. Echo (Plain (Sparse (ExcludedPath p)))) (exclude_paths config)"
    if "result_of (apply_sparse_checkout env sp config w) = Inr ()"
    using that by (simp add: ex Let_def split: if_splits)
next
  assume nl: "\<forall>p \<in> set (exclude_paths config). CHR 0x0A \<notin> set p"
  have "split_on (CHR 0x0A)
      (str_join [CHR 0x0A] (''/*'' # map (\<lambda>p. ''!/'' @ p) (exclude_paths config)))
      = ''/*'' # map (\<lambda>p. ''!/'' @ p) (exclude_paths config)"
    by (rule split_on_str_join) (use nl in auto)
  then show "split_on (CHR 0x0A)
      (str_join newline (''/*'' # map (\<lambda>p. ''!/'' @ p) (exclude_paths config)))
      = ''/*'' # map (\<lambda>p. ''!/'' @ p) (exclude_paths config)"
    by (simp add: newline_def)
qed

theorem exclude_list_ignored_counterexample:
  "exclude_paths \<lparr>include_paths = [''apps/x''], exclude_paths = [''secrets/'']\<rparr> \<noteq> []
   \<and> writes (trace_of (apply_sparse_checkout quiet_env
         [''work'', ''hub'', ''apps'', ''decg-fe-monorepo'']
         \<lparr>include_paths = [''apps/x''], exclude_paths = [''secrets/'']\<rparr> demo_world)) = []
   \<and> ''git read-tree -mu HEAD'' \<notin> set (commands (trace_of (apply_sparse_checkout quiet_env
         [''work'', ''hub'', ''apps'', ''decg-fe-monorepo'']
         \<lparr>include_paths = [''apps/x''], exclude_paths = [''secrets/'']\<rparr> demo_world)))"
  by (simp add: apply_include)

theorem exclude_mode_pattern_file_witness:
  "include_paths \<lparr>include_paths = [], exclude_paths = [''secrets/'']\<rparr> = []
   \<and> exclude_paths \<lparr>include_paths = [], exclude_paths = [''secrets/'']\<rparr> \<noteq> []
   \<and> writes (trace_of (apply_sparse_checkout quiet_env
         [''work'', ''hub'', ''apps'', ''decg-fe-monorepo'']
         \<lparr>include_paths = [], exclude_paths = [''secrets/'']\<rparr> demo_world)) =
       [([''work'', ''hub'', ''apps'', ''decg-fe-monorepo'', ''.git'', ''info'', ''sparse-checkout''],
         Text (''/*'' @ [CHR 0x0A] @ ''!/secrets/'' @ [CHR 0x0A]))]
   \<and> split_on (CHR 0x0A) (''/*'' @ [CHR 0x0A] @ ''!/secrets/'') = [''/*'', ''!/secrets/'']
   \<and> result_of (apply_sparse_checkout quiet_env
         [''work'', ''hub'', ''apps'', ''decg-fe-monorepo'']
         \<lparr>include_paths = [], exclude_paths = [''secrets/'']\<rparr> demo_world) = Inr ()
   \<and> commands (trace_of (apply_sparse_checkout quiet_env
         [''work'', ''hub'', ''apps'', ''decg-fe-monorepo'']
         \<lparr>include_paths = [], exclude_paths = [''secrets/'']\<rparr> demo_world)) =
       [''git sparse-checkout init --no-cone'', ''git read-tree -mu HEAD'']"
proof -
  let ?fe = "[''work'', ''hub'', ''apps'', ''decg-fe-monorepo'']"
  let ?b = "\<lparr>include_paths = [], exclude_paths = [''secrets/'']\<rparr>"
  have a: "include_paths ?b = []" and b: "exclude_paths ?b \<noteq> []"
    by simp_all
  have ok: "result_of (apply_sparse_checkout quiet_env ?fe ?b demo_world) = Inr ()"
    by (simp add: apply_exclude quiet_env_def demo_world_def lookup_def parent_def Let_def)
  have nl: "\<forall>p \<in> set (exclude_paths ?b). CHR 0x0A \<notin> set p"
    by simp
  note inst = exclude_mode_pattern_file [OF a b, of quiet_env ?fe demo_world]
  show ?thesis
    using inst [THEN conjunct1] inst [THEN conjunct2, THEN conjunct1, THEN mp, OF nl]
      inst [THEN conjunct2, THEN conjunct2, THEN mp, OF ok] ok
    by (simp add: newline_def)
qed

subsection \<open>Scaffolding commands\<close>

lemma get_hub_root_found:
  "find_hub_root (fs w) (getcwd env) = Some hub_root \<Longrightarrow>
     bindP (get_hub_root env) f w = f hub_root w"
  by (simp add: bindP_def get_hub_root_def return_def split: prod.splits sum.splits)

lemma demo_hub_root: "find_hub_root (fs demo_world) (getcwd quiet_env) = Some [''work'', ''hub'']"
  by (simp add: find_hub_root.simps demo_world_def quiet_env_def parent_def path_exists_def
      lookup_def)

lemma joinpath_simple:
  "joinpath p ''docs'' = p @ [''docs'']"
  "joinpath p ''releases'' = p @ [''releases'']"
  "joinpath p ''svc'' = p @ [''svc'']"
  "joinpath p ''v1'' = p @ [''v1'']"
  "joinpath p ''v2'' = p @ [''v2'']"
  by (simp_all add: joinpath_def is_absolute_def path_parts_def)

text \<open>
  Claim C9. When the target directory of \<open>docs init\<close> or \<open>release init\<close> already
  exists, the command prints the warning and returns normally (exit code 0); the world,
  its file system included, is what it was, and the warning is the only effect.
\<close>

theorem existing_target_left_untouched:
  assumes "find_hub_root (fs w) (getcwd env) = Some hub_root"
  shows
    "(path_exists (fs w) (joinpath (joinpath (joinpath hub_root ''docs'') service) version) \<longrightarrow>
        docs_init env service version w =
          (Inr (), w, [Echo (Warning (Docs (AlreadyExists ''docs'' service version)))]))
     \<and> (path_exists (fs w)
          (joinpath (joinpath (joinpath hub_root ''releases'') service) version) \<longrightarrow>
        release_init env service version w =
          (Inr (), w, [Echo (Warning (Docs (AlreadyExists ''releases'' service version)))]))"
  by (simp add: docs_init_def release_init_def get_hub_root_found [OF assms] echo_warning_def
      echo_def)

theorem existing_target_left_untouched_witness:
  "find_hub_root (fs demo_world) (getcwd quiet_env) = Some [''work'', ''hub'']
   \<and> path_exists (fs demo_world) [''work'', ''hub'', ''docs'', ''svc'', ''v1'']
   \<and> docs_init quiet_env ''svc'' ''v1'' demo_world =
       (Inr (), demo_world, [Echo (Warning (Docs (AlreadyExists ''docs'' ''svc'' ''v1'')))])
   \<and> path_exists (fs demo_world) [''work'', ''hub'', ''releases'', ''svc'', ''v1'']
   \<and> release_init quiet_env ''svc'' ''v1'' demo_world =
       (Inr (), demo_world, [Echo (Warning (Docs (AlreadyExists ''releases'' ''svc'' ''v1'')))])"
proof -
  have d: "path_exists (fs demo_world) [''work'', ''hub'', ''docs'', ''svc'', ''v1'']"
    and r: "path_exists (fs demo_world) [''work'', ''hub'', ''releases'', ''svc'', ''v1'']"
    by (simp_all add: demo_world_def path_exists_def lookup_def)
  note inst = existing_target_left_untouched [OF demo_hub_root, of "''svc''" "''v1''"]
  show ?thesis
    using d r inst [THEN conjunct1] inst [THEN conjunct2] demo_hub_root
    by (simp add: joinpath_simple)
qed

subsection \<open>branch create\<close>

lemma joinpath_repo:
  "joinpath hub ''apps/decg-fe-monorepo'' = hub @ [''apps'', ''decg-fe-monorepo'']"
  "joinpath hub ''apps/decg-be-monorepo'' = hub @ [''apps'', ''decg-be-monorepo'']"
  "joinpath hub ''apps/decg-go-monorepo'' = hub @ [''apps'', ''decg-go-monorepo'']"
  by (simp_all add: joinpath_def is_absolute_def path_parts_def)

lemma branch_create_repo_runs_in:
  assumes "map_of repo_map repo_key = Some relpath"
  shows "emits (\<lambda>e. \<forall>c d. e = Run c d \<longrightarrow> d = joinpath hub relpath)
     (branch_create_repo env hub branch_name repo_key)"
  unfolding branch_create_repo_def emits_def
  by (simp add: assms Let_def echo_warning_def echo_success_def echo_def thenP_apply
      run_shell_def split: prod.splits)

lemma branch_create_repo_unknown:
  assumes "map_of repo_map repo_key = None"
  shows "branch_create_repo env hub branch_name repo_key w =
     (Inr (), w, [Echo (Warning (Branch (UnknownRepo repo_key)))])"
  by (simp add: branch_create_repo_def assms echo_warning_def echo_def)

text \<open>
  Claim C10. Without \<open>--repo\<close> (no option given, or an empty list of them),
  \<open>branch create\<close> runs commands in the frontend and backend submodules only, never
  in the go submodule. A key that is none of \<open>fe\<close>, \<open>be\<close>, \<open>go\<close> costs one warning
  and nothing else: the loop goes on with the remaining keys from the same world.
\<close>

theorem branch_create_default_repos:
  "(find_hub_root (fs w) (getcwd env) = Some hub \<and> (repos = None \<or> repos = Some []) \<longrightarrow>
      list_all (\<lambda>e. \<forall>c d. e = Run c d \<longrightarrow>
                  d = hub @ [''apps'', ''decg-fe-monorepo'']
                  \<or> d = hub @ [''apps'', ''decg-be-monorepo''])
        (trace_of (branch_create env task_id description repos w)))
   \<and> (repo_key \<notin> {''fe'', ''be'', ''go''} \<longrightarrow>
      for_each (branch_create_repo env hub branch_name) (repo_key # rest) w =
        (case for_each (branch_create_repo env hub branch_name) rest w of
           (r, w', t) \<Rightarrow> (r, w', Echo (Warning (Branch (UnknownRepo repo_key))) # t)))"
proof (intro conjI impI)
  assume a: "find_hub_root (fs w) (getcwd env) = Some hub \<and> (repos = None \<or> repos = Some [])"
  let ?P = "\<lambda>e. \<forall>c d. e = Run c d \<longrightarrow>
      d = hub @ [''apps'', ''decg-fe-monorepo''] \<or> d = hub @ [''apps'', ''decg-be-monorepo'']"
  let ?bn = "''task/'' @ task_id @ ''-'' @ description"
  have t: "target_repos repos = [''fe'', ''be'']"
    using a by (auto simp: target_repos_def)
  have body: "emits ?P (branch_create_repo env hub ?bn k)" if "k \<in> set [''fe'', ''be'']" for k
  proof -
    from that consider "k = ''fe''" | "k = ''be''"
      by auto
    then show ?thesis
    proof cases
      case 1
      have "map_of repo_map k = Some ''apps/decg-fe-monorepo''"
        by (simp add: 1 repo_map_def)
      from branch_create_repo_runs_in [OF this, of hub env ?bn]
      show ?thesis
        by (simp add: emits_def joinpath_repo list_all_iff)
    next
      case 2
      have "map_of repo_map k = Some ''apps/decg-be-monorepo''"
        by (simp add: 2 repo_map_def)
      from branch_create_repo_runs_in [OF this, of hub env ?bn]
      show ?thesis
        by (simp add: emits_def joinpath_repo list_all_iff)
    qed
  qed
  have "emits ?P (thenP (echo (Plain (Branch (BranchBanner ?bn))))
      (for_each (branch_create_repo env hub ?bn) [''fe'', ''be'']))"
    by (intro emits_thenP emits_echo emits_for_each body) simp_all
  then show "list_all ?P (trace_of (branch_create env task_id description repos w))"
    using a by (simp add: branch_create_def get_hub_root_found t emits_def Let_def)
next
  assume "repo_key \<notin> {''fe'', ''be'', ''go''}"
  then have "map_of repo_map repo_key = None"
    by (simp add: repo_map_def)
  then show "for_each (branch_create_repo env hub branch_name) (repo_key # rest) w =
        (case for_each (branch_create_repo env hub branch_name) rest w of
           (r, w', t) \<Rightarrow> (r, w', Echo (Warning (Branch (UnknownRepo repo_key))) # t))"
    by (simp add: thenP_apply branch_create_repo_unknown split: prod.splits)
qed

theorem branch_create_default_repos_witness:
  "find_hub_root (fs demo_world) (getcwd quiet_env) = Some [''work'', ''hub'']
   \<and> commands (trace_of (branch_create quiet_env ''DEA-001'' ''login-ui'' None demo_world)) =
       [''git checkout -b task/DEA-001-login-ui'']
   \<and> list_all (\<lambda>e. \<forall>c d. e = Run c d \<longrightarrow>
                  d = [''work'', ''hub'', ''apps'', ''decg-fe-monorepo'']
                  \<or> d = [''work'', ''hub'', ''apps'', ''decg-be-monorepo''])
        (trace_of (branch_create quiet_env ''DEA-001'' ''login-ui'' None demo_world))
   \<and> ''docs'' \<notin> {''fe'', ''be'', ''go''}
   \<and> for_each (branch_create_repo quiet_env [''work'', ''hub''] ''task/DEA-001-login-ui'')
         [''docs'', ''fe''] demo_world =
       (Inr (), demo_world,
        [Echo (Warning (Branch (UnknownRepo ''docs''))),
         Echo (Plain (Branch (RepoHeader ''apps/decg-fe-monorepo''))),
         Echo (Plain (Cmd ''git checkout -b task/DEA-001-login-ui'')),
         Run ''git checkout -b task/DEA-001-login-ui''
           [''work'', ''hub'', ''apps'', ''decg-fe-monorepo''],
         Echo (Success (Branch (BranchCreated ''task/DEA-001-login-ui'')))])"
proof -
  have k: "''docs'' \<notin> {''fe'', ''be'', ''go''}"
    by simp
  have fe: "for_each (branch_create_repo quiet_env [''work'', ''hub''] ''task/DEA-001-login-ui'')
      [''fe''] demo_world =
     (Inr (), demo_world,
      [Echo (Plain (Branch (RepoHeader ''apps/decg-fe-monorepo''))),
       Echo (Plain (Cmd ''git checkout -b task/DEA-001-login-ui'')),
       Run ''git checkout -b task/DEA-001-login-ui''
         [''work'', ''hub'', ''apps'', ''decg-fe-monorepo''],
       Echo (Success (Branch (BranchCreated ''task/DEA-001-login-ui'')))])"
    by code_simp
  have cmds: "commands (trace_of (branch_create quiet_env ''DEA-001'' ''login-ui'' None demo_world)) =
       [''git checkout -b task/DEA-001-login-ui'']"
    by code_simp
  note inst = branch_create_default_repos [where w = demo_world and env = quiet_env
      and hub = "[''work'', ''hub'']" and repos = None and task_id = "''DEA-001''"
      and description = "''login-ui''" and repo_key = "''docs''" and rest = "[''fe'']"
      and branch_name = "''task/DEA-001-login-ui''"]
  have h: "find_hub_root (fs demo_world) (getcwd quiet_env) = Some [''work'', ''hub'']
      \<and> (None = None \<or> None = Some [])"
    by (simp add: demo_hub_root)
  show ?thesis
    using inst [THEN conjunct1, THEN mp, OF h] inst [THEN conjunct2, THEN mp, OF k]
      demo_hub_root cmds fe
    by simp
qed

subsection \<open>docs diff\<close>

lemma md_files_iff:
  "r \<in> md_files files d \<longleftrightarrow> r \<noteq> [] \<and> d @ r \<in> fst ` set files \<and> matches_md (last r)"
proof
  assume "r \<in> md_files files d"
  then obtain f where f: "f \<in> fst ` set files" "length d < length f" "take (length d) f = d"
      "matches_md (last f)" and r: "r = drop (length d) f"
    by (auto simp: md_files_def rglob_md_def relative_to_def)
  from f(2) r have "r \<noteq> []"
    by simp
  moreover have "d @ r = f"
    using f(3) r by (metis append_take_drop_id)
  moreover have "last r = last f"
    using f(2) r by simp
  ultimately show "r \<noteq> [] \<and> d @ r \<in> fst ` set files \<and> matches_md (last r)"
    using f by simp
next
  assume a: "r \<noteq> [] \<and> d @ r \<in> fst ` set files \<and> matches_md (last r)"
  then have "d @ r \<in> set (rglob_md files d)"
    by (simp add: rglob_md_def)
  then have "relative_to d (d @ r) \<in> md_files files d"
    unfolding md_files_def by (simp only: set_map) (rule imageI)
  then show "r \<in> md_files files d"
    by (simp add: relative_to_def)
qed

lemma md_files_eq:
  "md_files files d = {r. r \<noteq> [] \<and> d @ r \<in> fst ` set files \<and> matches_md (last r)}"
  using md_files_iff by blast

text \<open>
  Claim C8. For two version directories that exist, \<open>docs diff\<close> reports the set
  differences and the intersection of \<open>files1\<close> and \<open>files2\<close>: the added files are
  \<open>files2 - files1\<close> (their number, then each of them in sorted order), the removed ones
  \<open>files1 - files2\<close>, and the common count is that of \<open>files1 \<inter> files2\<close>. Each
  \<open>files\<close> set holds the paths, relative to its version directory, of the entries below
  that directory whose name matches \<open>*.md\<close>. The command changes nothing.
\<close>

theorem docs_diff_set_operations:
  assumes "find_hub_root (fs w) (getcwd env) = Some hub_root"
    and "path_exists (fs w) (joinpath (joinpath (joinpath hub_root ''docs'') service) v1)"
    and "path_exists (fs w) (joinpath (joinpath (joinpath hub_root ''docs'') service) v2)"
  shows
    "(let path1 = joinpath (joinpath (joinpath hub_root ''docs'') service) v1;
          path2 = joinpath (joinpath (joinpath hub_root ''docs'') service) v2;
          files1 = md_files (fs w) path1;
          files2 = md_files (fs w) path2
      in docs_diff env service v1 v2 w =
           (Inr (), w,
            [Echo (Plain (Docs (DiffBanner v1 v2)))]
            @ (if files2 - files1 \<noteq> {}
               then Echo (Plain (Docs (AddedHeader (card (files2 - files1)))))
                    # map (\<lambda>f. Echo (Plain (Docs (AddedFile f))))
                        (sorted_list_of_set (files2 - files1))
               else [])
            @ (if files1 - files2 \<noteq> {}
               then Echo (Plain (Docs (RemovedHeader (card (files1 - files2)))))
                    # map (\<lambda>f. Echo (Plain (Docs (RemovedFile f))))
                        (sorted_list_of_set (files1 - files2))
               else [])
            @ [Echo (Plain (Docs (CommonCount (card (files1 \<inter> files2)))))])
         \<and> files1 = {r. r \<noteq> [] \<and> path1 @ r \<in> fst ` set (fs w) \<and> matches_md (last r)}
         \<and> files2 = {r. r \<noteq> [] \<and> path2 @ r \<in> fst ` set (fs w) \<and> matches_md (last r)})"
proof -
  have "docs_diff env service v1 v2 w =
      (let path1 = joinpath (joinpath (joinpath hub_root ''docs'') service) v1;
           path2 = joinpath (joinpath (joinpath hub_root ''docs'') service) v2;
           files1 = md_files (fs w) path1;
           files2 = md_files (fs w) path2
       in (Inr (), w,
            [Echo (Plain (Docs (DiffBanner v1 v2)))]
            @ (if files2 - files1 \<noteq> {}
               then Echo (Plain (Docs (AddedHeader (card (files2 - files1)))))
                    # map (\<lambda>f. Echo (Plain (Docs (AddedFile f))))
                        (sorted_list_of_set (files2 - files1))
               else [])
            @ (if files1 - files2 \<noteq> {}
               then Echo (Plain (Docs (RemovedHeader (card (files1 - files2)))))
                    # map (\<lambda>f. Echo (Plain (Docs (RemovedFile f))))
                        (sorted_list_of_set (files1 - files2))
               else [])
            @ [Echo (Plain (Docs (CommonCount (card (files1 \<inter> files2)))))]))"
    using assms(2,3)
    by (simp add: Let_def docs_diff_def get_hub_root_found [OF assms(1)] echo_thenP thenP_apply
        for_each_echo return_def echo_def)
  then show ?thesis
    by (simp add: Let_def md_files_eq [symmetric])
qed

theorem docs_diff_set_operations_witness:
  "find_hub_root (fs demo_world) (getcwd quiet_env) = Some [''work'', ''hub'']
   \<and> path_exists (fs demo_world) [''work'', ''hub'', ''docs'', ''svc'', ''v1'']
   \<and> path_exists (fs demo_world) [''work'', ''hub'', ''docs'', ''svc'', ''v2'']
   \<and> md_files (fs demo_world) [''work'', ''hub'', ''docs'', ''svc'', ''v1'']
       = {[''a.md''], [''b.md'']}
   \<and> md_files (fs demo_world) [''work'', ''hub'', ''docs'', ''svc'', ''v2'']
       = {[''b.md''], [''c.md'']}
   \<and> docs_diff quiet_env ''svc'' ''v1'' ''v2'' demo_world =
       (Inr (), demo_world,
        [Echo (Plain (Docs (DiffBanner ''v1'' ''v2''))),
         Echo (Plain (Docs (AddedHeader 1))),
         Echo (Plain (Docs (AddedFile [''c.md'']))),
         Echo (Plain (Docs (RemovedHeader 1))),
         Echo (Plain (Docs (RemovedFile [''a.md'']))),
         Echo (Plain (Docs (CommonCount 1)))])"
proof -
  have p1: "path_exists (fs demo_world)
      (joinpath (joinpath (joinpath [''work'', ''hub''] ''docs'') ''svc'') ''v1'')"
    and p2: "path_exists (fs demo_world)
      (joinpath (joinpath (joinpath [''work'', ''hub''] ''docs'') ''svc'') ''v2'')"
    by (simp_all add: joinpath_simple demo_world_def path_exists_def lookup_def)
  have f1: "md_files (fs demo_world) [''work'', ''hub'', ''docs'', ''svc'', ''v1'']
      = {[''a.md''], [''b.md'']}"
    by code_simp
  have f2: "md_files (fs demo_world) [''work'', ''hub'', ''docs'', ''svc'', ''v2'']
      = {[''b.md''], [''c.md'']}"
    by code_simp
  have d1: "{[''b.md''], [''c.md'']} - {[''a.md''], [''b.md'']} = {[''c.md'']}"
    and d2: "{[''a.md''], [''b.md'']} - {[''b.md''], [''c.md'']} = {[''a.md'']}"
    and d3: "{[''a.md''], [''b.md'']} \<inter> {[''b.md''], [''c.md'']} = {[''b.md'']}"
    by auto
  show ?thesis
    using docs_diff_set_operations [OF demo_hub_root p1 p2] p1 p2 demo_hub_root
    by (simp add: Let_def joinpath_simple f1 f2 d1 d2 d3)
qed

subsection \<open>The profile resolver\<close>

lemma trace_bindP_prefix: "\<exists>t. trace_of (bindP m f w) = trace_of (m w) @ t"
  by (cases "m w" rule: prod_cases3) (auto simp: bindP_def split: sum.splits prod.splits)

lemma commands_bindP_subset:
  "set (commands (trace_of (m w))) \<subseteq> set (commands (trace_of (bindP m f w)))"
proof -
  obtain t where "trace_of (bindP m f w) = trace_of (m w) @ t"
    using trace_bindP_prefix by blast
  then show ?thesis
    by (simp add: commands_append)
qed

lemma commands_thenP_subset:
  "set (commands (trace_of (m w))) \<subseteq> set (commands (trace_of (thenP m k w)))"
  by (simp add: thenP_def commands_bindP_subset)

lemma commands_after_quiet:
  assumes "m w = (Inr a, w, t)"
  shows "set (commands (trace_of (k w))) \<subseteq> set (commands (trace_of (thenP m k w)))"
  by (cases "k w" rule: prod_cases3) (simp add: thenP_apply assms commands_append)

lemma load_sparse_profile_missing:
  assumes "\<not> path_exists (fs w) (profile_location hub_root service version profile_path)"
  shows "load_sparse_profile env hub_root service version profile_path w = (Inr None, w, [])"
  using assms by (simp add: load_sparse_profile_def return_def)

lemma init_step_hub_verifies:
  "''git rev-parse --verify workspace/'' @ service @ ''-'' @ version
     \<in> set (commands (trace_of (init_step_hub env hub_root service version w)))"
  by (auto simp: init_step_hub_def Let_def thenP_def bindP_def echo_def echo_info_def
      echo_success_def run_shell_def split: prod.splits sum.splits if_splits)

lemma bindP_quiet:
  assumes "m w = (Inr a, w, [])"
  shows "bindP m f w = f a w"
  by (cases "f a w" rule: prod_cases3) (simp add: bindP_def assms)

lemma init_workspace_without_profile:
  assumes hub: "find_hub_root (fs w) (getcwd env) = Some hub_root"
    and missing: "\<not> path_exists (fs w) (profile_location hub_root service version profile)"
  shows "''git rev-parse --verify workspace/'' @ service @ ''-'' @ version
     \<in> set (commands (trace_of
           (init_workspace env service version modules profile skip_docker w)))"
proof -
  let ?note = "if modules \<noteq> None \<and> modules \<noteq> Some []
      then echo_info (Init (ModulesGiven (length (the modules)))) else return ()"
  let ?rest = "thenP (init_step_submodules env hub_root None modules
        (service @ ''/develop/'' @ version))
     (thenP (init_step_docs hub_root service version)
     (thenP (init_step_docker hub_root skip_docker)
     (thenP (echo (Plain (Ascii (newline @ replicate 50 CHR ''=''))))
     (thenP (echo_success (Init (InitDone service version)))
            (echo (Plain (Init NextSteps)))))))"
  let ?main = "thenP ?note (thenP (init_step_hub env hub_root service version) ?rest)"
  note load = bindP_quiet [where m = "load_sparse_profile env hub_root service version profile"
      and w = w and a = None, OF load_sparse_profile_missing [OF missing]]
  have run: "init_workspace env service version modules profile skip_docker w =
      (case ?main w of (r, w2, t2) \<Rightarrow>
         (r, w2, Echo (Plain (Init (InitBanner service version)))
                 # Echo (Plain (Ascii (replicate 50 CHR ''=''))) # t2))"
    by (simp add: init_workspace_def get_hub_root_found [OF hub] Let_def echo_thenP
        load truthy_def
        split: prod.splits)
  have "\<exists>t. ?note w = (Inr (), w, t)"
    by (simp add: echo_info_def echo_def return_def)
  then obtain t where quiet: "?note w = (Inr (), w, t)"
    by blast
  have "set (commands (trace_of (init_step_hub env hub_root service version w)))
      \<subseteq> set (commands (trace_of (thenP (init_step_hub env hub_root service version) ?rest w)))"
    by (rule commands_thenP_subset)
  also have "\<dots> \<subseteq> set (commands (trace_of (?main w)))"
    by (rule commands_after_quiet [where m = ?note and w = w, OF quiet])
  also have "\<dots> \<subseteq> set (commands (trace_of
      (init_workspace env service version modules profile skip_docker w)))"
    by (cases "?main w" rule: prod_cases3) (simp add: run)
  finally show ?thesis
    using init_step_hub_verifies by blast
qed

text \<open>
  Claim C3, as amended. The claim says that an explicit profile path that does not exist
  makes the resolver fail with NotFound before any git command. The resolver has no such
  error: a missing file gives \<open>None\<close>, for an explicit path exactly as for the
  conventional one, without a message or an effect, and \<open>init\<close> goes on to its git
  commands as it does with no profile.
\<close>

theorem missing_explicit_profile_is_no_profile:
  assumes "p \<noteq> []"
    and "\<not> path_exists (fs w) (if is_absolute p then path_parts p else joinpath hub_root p)"
  shows
    "load_sparse_profile env hub_root service version (Some p) w = (Inr None, w, [])
     \<and> (find_hub_root (fs w) (getcwd env) = Some hub_root \<longrightarrow>
          ''git rev-parse --verify workspace/'' @ service @ ''-'' @ version
            \<in> set (commands (trace_of
                  (init_workspace env service version modules (Some p) skip_docker w))))"
proof -
  have missing: "\<not> path_exists (fs w) (profile_location hub_root service version (Some p))"
    using assms by (auto simp: profile_location_def split: if_splits)
  show ?thesis
    using load_sparse_profile_missing [OF missing] init_workspace_without_profile [OF _ missing]
    by simp
qed

theorem missing_explicit_profile_counterexample:
  "\<not> path_exists (fs demo_world) [''work'', ''hub'', ''configs'', ''missing.yaml'']
   \<and> load_sparse_profile quiet_env [''work'', ''hub''] ''svc'' ''v1''
         (Some ''configs/missing.yaml'') demo_world = (Inr None, demo_world, [])
   \<and> result_of (init_workspace quiet_env ''svc'' ''v1'' None (Some ''configs/missing.yaml'')
         True demo_world) = Inr ()
   \<and> take 2 (commands (trace_of (init_workspace quiet_env ''svc'' ''v1'' None
         (Some ''configs/missing.yaml'') True demo_world))) =
       [''git rev-parse --verify workspace/svc-v1'', ''git checkout workspace/svc-v1'']"
  by code_simp

theorem missing_explicit_profile_is_no_profile_witness:
  "''configs/missing.yaml'' \<noteq> []
   \<and> \<not> path_exists (fs demo_world) [''work'', ''hub'', ''configs'', ''missing.yaml'']
   \<and> load_sparse_profile quiet_env [''work'', ''hub''] ''svc'' ''v1''
         (Some ''configs/missing.yaml'') demo_world = (Inr None, demo_world, [])
   \<and> find_hub_root (fs demo_world) (getcwd quiet_env) = Some [''work'', ''hub'']
   \<and> ''git rev-parse --verify workspace/svc-v1''
       \<in> set (commands (trace_of (init_workspace quiet_env ''svc'' ''v1'' None
             (Some ''configs/missing.yaml'') True demo_world)))"
proof -
  have loc: "(if is_absolute ''configs/missing.yaml'' then path_parts ''configs/missing.yaml''
       else joinpath [''work'', ''hub''] ''configs/missing.yaml'')
      = [''work'', ''hub'', ''configs'', ''missing.yaml'']"
    by (simp add: is_absolute_def joinpath_def path_parts_def)
  have a: "''configs/missing.yaml'' \<noteq> []"
    by simp
  have b: "\<not> path_exists (fs demo_world)
      (if is_absolute ''configs/missing.yaml'' then path_parts ''configs/missing.yaml''
       else joinpath [''work'', ''hub''] ''configs/missing.yaml'')"
    unfolding loc by (simp add: demo_world_def path_exists_def lookup_def)
  note inst = missing_explicit_profile_is_no_profile [OF a b, of quiet_env "''svc''" "''v1''"
      None True]
  show ?thesis
    using inst [THEN conjunct1] inst [THEN conjunct2, THEN mp, OF demo_hub_root] b demo_hub_root
    by (simp add: loc)
qed

subsection \<open>The submodule loop of init\<close>

lemma emits_apply_sparse_checkout:
  assumes "\<And>c. P (Run c sp)" and "\<And>c. P (Echo (Plain (Cmd c)))"
    and "P (Echo (Plain (Sparse (SparseEnable (path_name sp)))))"
    and "\<And>p. P (Echo (Plain (Sparse (IncludedPath p))))"
    and "\<And>p. P (Echo (Plain (Sparse (ExcludedPath p))))"
    and "P (Echo (Plain (Sparse AllIncludedWithExclusions)))"
    and "\<And>s. P (EchoErr (Plain (CmdFailed s)))"
    and "\<And>c. P (WriteText (sp @ [''.git'', ''info'', ''sparse-checkout'']) c)"
  shows "emits P (apply_sparse_checkout env sp config)"
  unfolding apply_sparse_checkout_def
  by (intro emits_thenP emits_if emits_for_each emits_run_shell emits_echo emits_write_text
      emits_return assms)

lemma emits_init_submodule:
  assumes "\<And>c. P (Run c (joinpath hub (snd sub)))"
    and "P (Run (''git submodule update --init --depth 1 '' @ snd sub) hub)"
    and "\<And>c. P (Echo (Plain (Cmd c)))"
    and "P (Echo (Plain (Sparse (SparseEnable (path_name (joinpath hub (snd sub)))))))"
    and "\<And>p. P (Echo (Plain (Sparse (IncludedPath p))))"
    and "\<And>p. P (Echo (Plain (Sparse (ExcludedPath p))))"
    and "P (Echo (Plain (Sparse AllIncludedWithExclusions)))"
    and "\<And>s. P (EchoErr (Plain (CmdFailed s)))"
    and "\<And>c. P (WriteText (joinpath hub (snd sub) @ [''.git'', ''info'', ''sparse-checkout'']) c)"
    and "P (Echo (Plain (Init (FullCheckout (fst sub)))))"
  shows "emits P (init_submodule env hub prof mods bn sub)"
  unfolding init_submodule_def Let_def case_prod_beta
  by (intro emits_thenP emits_branch emits_bindP emits_if emits_run_shell emits_echo emits_return
      emits_apply_sparse_checkout assms)

lemma other_submodule_untouched:
  assumes "x \<in> set all_submodules" and "sub \<in> set all_submodules" and "fst x \<noteq> fst sub"
  shows "emits (\<lambda>e. \<not> concerns_submodule hub sub e) (init_submodule env hub prof mods bn x)"
  by (rule emits_init_submodule)
     (use assms in \<open>auto simp: all_submodules_def concerns_submodule_def joinpath_repo
        path_name_def\<close>)

text \<open>
  Claim C4, as amended. The claim says that a known submodule that the profile's
  \<open>submodules\<close> mapping does not list still takes part in initialisation, with a full
  checkout. The code initialises the listed submodules only: an unlisted one is among
  the names reported as skipped, it is not a target of the loop, and no effect of the
  submodule step touches it (no command in it, no initialisation of it, no file below
  it, no message about its checkout).
\<close>

theorem unlisted_submodule_is_skipped:
  assumes "has_submodules prof" and "sub \<in> set all_submodules"
    and "map_of (profile_submodules prof) (fst sub) = None"
  shows
    "fst sub \<in> set (skipped_submodules prof)
     \<and> sub \<notin> set (target_submodules prof)
     \<and> emits (\<lambda>e. \<not> concerns_submodule hub sub e)
         (init_step_submodules env hub prof mods bn)"
proof (intro conjI)
  show "fst sub \<in> set (skipped_submodules prof)"
    using assms(2,3) by (auto simp: skipped_submodules_def)
  show "sub \<notin> set (target_submodules prof)"
    using assms(1,3) by (auto simp: target_submodules_def)
  have body: "emits (\<lambda>e. \<not> concerns_submodule hub sub e) (init_submodule env hub prof mods bn x)"
    if "x \<in> set (target_submodules prof)" for x
  proof -
    from that have "x \<in> set all_submodules" and "map_of (profile_submodules prof) (fst x) \<noteq> None"
      using assms(1) by (auto simp: target_submodules_def)
    with assms(3) have "fst x \<noteq> fst sub"
      by auto
    with \<open>x \<in> set all_submodules\<close> assms(2) show ?thesis
      by (rule other_submodule_untouched)
  qed
  show "emits (\<lambda>e. \<not> concerns_submodule hub sub e) (init_step_submodules env hub prof mods bn)"
    unfolding init_step_submodules_def echo_info_def echo_success_def
    by (intro emits_thenP emits_if emits_for_each emits_echo emits_return body)
       (simp_all add: concerns_submodule_def)
qed

theorem unlisted_submodule_counterexample:
  "load_sparse_profile quiet_env [''work'', ''hub''] ''svc'' ''v1''
       (Some ''configs/sparse-profiles/fe-only.yaml'') demo_world
     = (Inr (Some fe_only_profile), demo_world, [])
   \<and> map_of (profile_submodules (Some fe_only_profile)) ''decg-be-monorepo'' = None
   \<and> \<not> path_exists (fs demo_world) [''work'', ''hub'', ''apps'', ''decg-be-monorepo'']
   \<and> result_of (init_workspace quiet_env ''svc'' ''v1'' None
         (Some ''configs/sparse-profiles/fe-only.yaml'') True demo_world) = Inr ()
   \<and> commands (trace_of (init_workspace quiet_env ''svc'' ''v1'' None
         (Some ''configs/sparse-profiles/fe-only.yaml'') True demo_world)) =
       [''git rev-parse --verify workspace/svc-v1'', ''git checkout workspace/svc-v1'',
        ''git sparse-checkout init --cone'', ''git sparse-checkout set apps/x packages/'',
        ''git rev-parse --verify svc/develop/v1'', ''git checkout svc/develop/v1'']
   \<and> Echo (Info (Init (SkippedSubmodules ''decg-be-monorepo, decg-go-monorepo'')))
       \<in> set (trace_of (init_workspace quiet_env ''svc'' ''v1'' None
             (Some ''configs/sparse-profiles/fe-only.yaml'') True demo_world))
   \<and> Echo (Plain (Init (FullCheckout ''decg-be-monorepo'')))
       \<notin> set (trace_of (init_workspace quiet_env ''svc'' ''v1'' None
             (Some ''configs/sparse-profiles/fe-only.yaml'') True demo_world))"
  by code_simp

theorem unlisted_submodule_is_skipped_witness:
  "has_submodules (Some fe_only_profile)
   \<and> (''decg-be-monorepo'', ''apps/decg-be-monorepo'') \<in> set all_submodules
   \<and> map_of (profile_submodules (Some fe_only_profile)) ''decg-be-monorepo'' = None
   \<and> ''decg-be-monorepo'' \<in> set (skipped_submodules (Some fe_only_profile))
   \<and> (''decg-be-monorepo'', ''apps/decg-be-monorepo'')
       \<notin> set (target_submodules (Some fe_only_profile))
   \<and> target_submodules (Some fe_only_profile)
       = [(''decg-fe-monorepo'', ''apps/decg-fe-monorepo'')]
   \<and> emits (\<lambda>e. \<not> concerns_submodule [''work'', ''hub'']
                  (''decg-be-monorepo'', ''apps/decg-be-monorepo'') e)
         (init_step_submodules quiet_env [''work'', ''hub''] (Some fe_only_profile) None
            ''svc/develop/v1'')"
proof -
  have a: "has_submodules (Some fe_only_profile)"
    by code_simp
  have b: "(''decg-be-monorepo'', ''apps/decg-be-monorepo'') \<in> set all_submodules"
    by code_simp
  have c: "map_of (profile_submodules (Some fe_only_profile))
      (fst (''decg-be-monorepo'', ''apps/decg-be-monorepo'')) = None"
    by code_simp
  have t: "target_submodules (Some fe_only_profile)
      = [(''decg-fe-monorepo'', ''apps/decg-fe-monorepo'')]"
    by code_simp
  show ?thesis
    using unlisted_submodule_is_skipped [OF a b c, of "[''work'', ''hub'']" quiet_env None
        "''svc/develop/v1''"] a b c t
    by simp
qed

lemma exits_by_return: "exits_by S (return a)"
  by (simp add: exits_by_def return_def)

lemma exits_by_echo: "exits_by S (echo m)"
  by (simp add: exits_by_def echo_def)

lemma exits_by_write_text: "exits_by S (write_text p c)"
  by (simp add: exits_by_def write_text_def)

lemma exits_by_run_shell_unchecked: "exits_by S (run_shell env c d False)"
  by (simp add: exits_by_def run_shell_unchecked)

lemma exits_by_run_shell_checked: "c \<in> S \<Longrightarrow> exits_by S (run_shell env c d True)"
  by (auto simp: exits_by_def run_shell_def split: prod.splits if_splits)

lemma exits_by_bindP:
  assumes m: "exits_by S m" and f: "\<And>a. exits_by S (f a)"
  shows "exits_by S (bindP m f)"
  unfolding exits_by_def
proof (intro allI impI)
  fix w rc
  assume ex: "result_of (bindP m f w) = Inl (Exit rc)"
  obtain r w1 t1 where mw: "m w = (r, w1, t1)"
    by (cases "m w" rule: prod_cases3)
  show "rc \<noteq> 0 \<and> commands (trace_of (bindP m f w)) \<noteq> []
      \<and> last (commands (trace_of (bindP m f w))) \<in> S"
  proof (cases r)
    case (Inl e)
    with mw ex have "result_of (m w) = Inl (Exit rc)"
      and "trace_of (bindP m f w) = trace_of (m w)"
      by (simp_all add: bindP_def)
    with m show ?thesis
      by (simp add: exits_by_def)
  next
    case (Inr a)
    obtain r2 w2 t2 where fw: "f a w1 = (r2, w2, t2)"
      by (cases "f a w1" rule: prod_cases3)
    with mw Inr ex have "result_of (f a w1) = Inl (Exit rc)"
      by (simp add: bindP_def)
    with f [of a] have "rc \<noteq> 0 \<and> commands (trace_of (f a w1)) \<noteq> []
        \<and> last (commands (trace_of (f a w1))) \<in> S"
      unfolding exits_by_def by blast
    with fw have "rc \<noteq> 0" and "commands t2 \<noteq> []" and "last (commands t2) \<in> S"
      by simp_all
    moreover have "trace_of (bindP m f w) = t1 @ t2"
      using mw Inr fw by (simp add: bindP_def)
    ultimately show ?thesis
      by (simp add: commands_append)
  qed
qed

lemma exits_by_thenP: "exits_by S m \<Longrightarrow> exits_by S k \<Longrightarrow> exits_by S (thenP m k)"
  by (simp add: thenP_def exits_by_bindP)

lemma exits_by_for_each: "(\<And>x. exits_by S (body x)) \<Longrightarrow> exits_by S (for_each body xs)"
proof (induction xs)
  case Nil
  show ?case by (simp add: exits_by_def return_def)
next
  case (Cons x xs)
  have "exits_by S (thenP (body x) (for_each body xs))"
    by (rule exits_by_thenP) (simp_all add: Cons)
  then show ?case by (simp add: exits_by_def)
qed

lemma exits_by_if: "(c \<Longrightarrow> exits_by S a) \<Longrightarrow> (\<not> c \<Longrightarrow> exits_by S b) \<Longrightarrow> exits_by S (if c then a else b)"
  by simp

lemma exits_by_branch: "exits_by S a \<Longrightarrow> exits_by S b \<Longrightarrow> exits_by S (\<lambda>w. if C w then a w else b w)"
  by (simp add: exits_by_def)

lemma apply_sparse_checkout_never_exits: "exits_by {} (apply_sparse_checkout env sp config)"
  unfolding apply_sparse_checkout_def
  by (intro exits_by_thenP exits_by_if exits_by_for_each exits_by_run_shell_unchecked
      exits_by_echo exits_by_write_text exits_by_return)

lemma exits_by_mono: "exits_by S m \<Longrightarrow> S \<subseteq> T \<Longrightarrow> exits_by T m"
  by (auto simp: exits_by_def)

lemma init_submodule_exits:
  "exits_by {''git submodule update --init --depth 1 '' @ snd sub,
             ''git checkout '' @ bn, ''git checkout -b '' @ bn}
     (init_submodule env hub prof mods bn sub)"
  unfolding init_submodule_def Let_def case_prod_beta
  by (intro exits_by_thenP exits_by_branch exits_by_bindP exits_by_if
      exits_by_run_shell_unchecked exits_by_run_shell_checked exits_by_echo exits_by_return
      exits_by_mono [OF apply_sparse_checkout_never_exits]) simp_all

lemma bindP_assoc: "bindP (bindP m f) g = bindP m (\<lambda>a. bindP (f a) g)"
proof
  fix w
  show "bindP (bindP m f) g w = bindP m (\<lambda>a. bindP (f a) g) w"
  proof (cases "m w" rule: prod_cases3)
    case (fields r w1 t1)
    show ?thesis
    proof (cases r)
      case (Inl e)
      with fields show ?thesis
        by (simp add: bindP_def)
    next
      case (Inr a)
      with fields show ?thesis
        by (simp add: bindP_def split: prod.splits sum.splits)
    qed
  qed
qed

lemma thenP_assoc: "thenP (thenP m k) l = thenP m (thenP k l)"
  by (simp add: thenP_def bindP_assoc)

lemma init_submodule_split:
  "init_submodule env hub prof mods bn sub =
     thenP (submodule_setup env hub prof mods sub)
       (bindP (run_shell env (''git rev-parse --verify '' @ bn) (joinpath hub (snd sub)) False)
          (\<lambda>result.
             if returncode result = 0
             then thenP (run_shell env (''git checkout '' @ bn) (joinpath hub (snd sub)) True)
                    (return ())
             else thenP (run_shell env (''git checkout -b '' @ bn) (joinpath hub (snd sub)) True)
                    (return ())))"
  by (simp add: init_submodule_def submodule_setup_def Let_def case_prod_beta thenP_assoc)

lemma thenP_exit:
  assumes "result_of (m w) = Inl e"
  shows "thenP m k w = (Inl e, world_of (m w), trace_of (m w))"
  using assms by (cases "m w" rule: prod_cases3) (simp add: thenP_apply)

lemma thenP_normal:
  assumes "result_of (m w) = Inr a"
  shows "thenP m k w =
     (result_of (k (world_of (m w))), world_of (k (world_of (m w))),
      trace_of (m w) @ trace_of (k (world_of (m w))))"
  using assms
  by (cases "m w" rule: prod_cases3; cases "k (world_of (m w))" rule: prod_cases3)
     (simp add: thenP_apply)

lemma run_shell_checked_exit:
  assumes "returncode (fst (shell env c d w)) \<noteq> 0"
  shows "result_of (run_shell env c d True w) = Inl (Exit (returncode (fst (shell env c d w))))"
  using assms by (cases "shell env c d w") (simp add: run_shell_def)

lemma return_thenP: "thenP (return a) k w = k w"
  by (cases "k w" rule: prod_cases3) (simp add: thenP_apply return_def)

lemma bindP_normal:
  assumes "m w = (Inr a, w1, t1)"
  shows "bindP m f w = (result_of (f a w1), world_of (f a w1), t1 @ trace_of (f a w1))"
  using assms by (cases "f a w1" rule: prod_cases3) (simp add: bindP_def)

lemma branch_part_exit:
  assumes probe: "shell env (''git rev-parse --verify '' @ bn) d w1 = (probe, w2)"
    and cmd: "c = (if returncode probe = 0 then ''git checkout '' @ bn
                   else ''git checkout -b '' @ bn)"
    and fails: "returncode (fst (shell env c d w2)) \<noteq> 0"
  shows "result_of
     (bindP (run_shell env (''git rev-parse --verify '' @ bn) d False)
        (\<lambda>result.
           if returncode result = 0
           then thenP (run_shell env (''git checkout '' @ bn) d True) (return ())
           else thenP (run_shell env (''git checkout -b '' @ bn) d True) (return ())) w1)
     = Inl (Exit (returncode (fst (shell env c d w2))))"
proof -
  have run: "run_shell env (''git rev-parse --verify '' @ bn) d False w1
      = (Inr probe, w2, [Echo (Plain (Cmd (''git rev-parse --verify '' @ bn))),
           Run (''git rev-parse --verify '' @ bn) d])"
    using probe by (simp add: run_shell_unchecked)
  have exit: "result_of (thenP (run_shell env c d True) (return ()) w2)
      = Inl (Exit (returncode (fst (shell env c d w2))))"
    using thenP_exit [where m = "run_shell env c d True" and w = w2 and k = "return ()",
        OF run_shell_checked_exit [OF fails]]
    by simp
  show ?thesis
  proof (cases "returncode probe = 0")
    case True
    with cmd have "c = ''git checkout '' @ bn"
      by simp
    with exit True show ?thesis
      unfolding bindP_normal [where m = "run_shell env (''git rev-parse --verify '' @ bn) d False"
          and w = w1, OF run]
      by simp
  next
    case False
    with cmd have "c = ''git checkout -b '' @ bn"
      by simp
    with exit False show ?thesis
      unfolding bindP_normal [where m = "run_shell env (''git rev-parse --verify '' @ bn) d False"
          and w = w1, OF run]
      by simp
  qed
qed

lemma get_hub_root_result:
  assumes "result_of (get_hub_root env w) = Inr hub"
  shows "get_hub_root env w = (Inr hub, w, [])"
  using assms
  by (auto simp: get_hub_root_def return_def thenP_apply echo_err_def raise_def
      split: option.splits)

lemma load_sparse_profile_result:
  assumes "result_of (load_sparse_profile env hub service version profile w) = Inr prof"
  shows "load_sparse_profile env hub service version profile w = (Inr prof, w, [])"
  using assms
  by (auto simp: load_sparse_profile_def Let_def return_def raise_def
      split: option.splits node.splits sum.splits if_splits)

lemma init_step_submodules_exit:
  assumes "result_of (for_each (init_submodule env hub prof mods bn) (target_submodules prof) w)
      = Inl e"
  shows "result_of (init_step_submodules env hub prof mods bn w) = Inl e
     \<and> commands (trace_of (init_step_submodules env hub prof mods bn w))
        = commands (trace_of (for_each (init_submodule env hub prof mods bn)
             (target_submodules prof) w))"
proof -
  let ?loop = "for_each (init_submodule env hub prof mods bn) (target_submodules prof)"
  let ?tail = "thenP ?loop (echo_success (Init SubmodulesDone))"
  have tail: "?tail w = (Inl e, world_of (?loop w), trace_of (?loop w))"
    using assms by (rule thenP_exit)
  show ?thesis
    by (simp add: init_step_submodules_def echo_thenP echo_info_def return_thenP tail)
qed

lemma echo_thenP_result: "result_of (thenP (echo m) k w) = result_of (k w)"
  by (cases "k w" rule: prod_cases3) (simp add: echo_thenP)

lemma echo_thenP_commands:
  "commands (trace_of (thenP (echo m) k w)) = commands (trace_of (k w))"
  by (cases "k w" rule: prod_cases3) (simp add: echo_thenP)

lemma announce_thenP:
  "result_of (thenP (if c1 then echo_info t1 else if c2 then echo_info t2 else return ()) k w)
     = result_of (k w)"
  "commands (trace_of
       (thenP (if c1 then echo_info t1 else if c2 then echo_info t2 else return ()) k w))
     = commands (trace_of (k w))"
  by (simp_all add: echo_info_def echo_thenP_result echo_thenP_commands return_thenP)

lemma init_steps_exit:
  assumes step1: "result_of (init_step_hub env hub service version w) = Inr ()"
    and loop: "result_of (for_each (init_submodule env hub prof modules bn)
          (target_submodules prof) (world_of (init_step_hub env hub service version w))) = Inl e"
  shows "result_of (thenP (init_step_hub env hub service version)
            (thenP (init_step_submodules env hub prof modules bn) k) w) = Inl e
     \<and> commands (trace_of (thenP (init_step_hub env hub service version)
            (thenP (init_step_submodules env hub prof modules bn) k) w))
        = commands (trace_of (init_step_hub env hub service version w))
          @ commands (trace_of (for_each (init_submodule env hub prof modules bn)
              (target_submodules prof) (world_of (init_step_hub env hub service version w))))"
proof -
  let ?w1 = "world_of (init_step_hub env hub service version w)"
  let ?sub = "init_step_submodules env hub prof modules bn"
  have sub: "thenP ?sub k ?w1 = (Inl e, world_of (?sub ?w1), trace_of (?sub ?w1))"
    using init_step_submodules_exit [OF loop, THEN conjunct1] by (rule thenP_exit)
  show ?thesis
    using init_step_submodules_exit [OF loop, THEN conjunct2]
    by (simp add: thenP_normal [where m = "init_step_hub env hub service version" and w = w,
          OF step1] sub commands_append)
qed

lemma init_workspace_loop_exit:
  assumes hub: "result_of (get_hub_root env w) = Inr hub"
    and prof: "result_of (load_sparse_profile env hub service version profile w) = Inr prof"
    and step1: "result_of (init_step_hub env hub service version w) = Inr ()"
    and loop: "result_of (for_each
          (init_submodule env hub prof modules (service @ ''/develop/'' @ version))
          (target_submodules prof) (world_of (init_step_hub env hub service version w))) = Inl e"
  shows "result_of (init_workspace env service version modules profile skip_docker w) = Inl e
     \<and> commands (trace_of (init_workspace env service version modules profile skip_docker w))
        = commands (trace_of (init_step_hub env hub service version w))
          @ commands (trace_of (for_each
              (init_submodule env hub prof modules (service @ ''/develop/'' @ version))
              (target_submodules prof) (world_of (init_step_hub env hub service version w))))"
proof -
  note after = init_steps_exit [OF step1 loop]
  note hub_found = bindP_quiet [where m = "get_hub_root env" and w = w,
      OF get_hub_root_result [OF hub]]
  note loaded = bindP_quiet [where m = "load_sparse_profile env hub service version profile"
      and w = w, OF load_sparse_profile_result [OF prof]]
  show ?thesis
    unfolding init_workspace_def Let_def
    by (simp only: hub_found loaded echo_thenP_result echo_thenP_commands announce_thenP after)
qed

text \<open>
  Claim C5, as amended. The claim says that no failure of a per-submodule step aborts the
  loop. That holds for the commands of the sparse-checkout applier only: they run
  unchecked, so the applier never ends in an exit. The other commands of the loop body
  run checked. The body is its setup followed by the branch step, and it ends in an exit
  only after \<open>git submodule update\<close>, \<open>git checkout\<close> or
  \<open>git checkout -b\<close>. Each of the three aborts: when the submodule's directory is
  missing and \<open>git submodule update\<close> returns a non-zero code, the body exits with
  that code; when the setup has returned normally and the checkout of the existing
  branch, or the creation of the missing one, returns a non-zero code, the body exits
  with that code. The exit of one submodule's body is the outcome of the loop, the
  remaining submodules left unprocessed, while a body that returns normally hands over
  to the next submodule. And the exit of the loop is the exit of \<open>init\<close>, whose
  commands are then those of the hub step and of the loop up to the failing command.
\<close>

theorem submodule_loop_failures:
  "exits_by {} (apply_sparse_checkout env sp config)
   \<and> exits_by {''git submodule update --init --depth 1 '' @ snd sub,
                ''git checkout '' @ bn, ''git checkout -b '' @ bn}
         (init_submodule env hub prof mods bn sub)
   \<and> init_submodule env hub prof mods bn sub =
        thenP (submodule_setup env hub prof mods sub)
          (bindP (run_shell env (''git rev-parse --verify '' @ bn) (joinpath hub (snd sub)) False)
             (\<lambda>result.
                if returncode result = 0
                then thenP (run_shell env (''git checkout '' @ bn) (joinpath hub (snd sub)) True)
                       (return ())
                else thenP (run_shell env (''git checkout -b '' @ bn) (joinpath hub (snd sub))
                              True)
                       (return ())))
   \<and> (\<not> path_exists (fs w) (joinpath hub (snd sub))
        \<and> returncode (fst (shell env (''git submodule update --init --depth 1 '' @ snd sub)
              hub w)) \<noteq> 0 \<longrightarrow>
        result_of (init_submodule env hub prof mods bn sub w) =
          Inl (Exit (returncode (fst (shell env
             (''git submodule update --init --depth 1 '' @ snd sub) hub w)))))
   \<and> (\<forall>probe w2.
        result_of (submodule_setup env hub prof mods sub w) = Inr ()
        \<and> shell env (''git rev-parse --verify '' @ bn) (joinpath hub (snd sub))
              (world_of (submodule_setup env hub prof mods sub w)) = (probe, w2)
        \<and> returncode probe = 0
        \<and> returncode (fst (shell env (''git checkout '' @ bn) (joinpath hub (snd sub)) w2)) \<noteq> 0
        \<longrightarrow>
        result_of (init_submodule env hub prof mods bn sub w) =
          Inl (Exit (returncode (fst (shell env (''git checkout '' @ bn)
             (joinpath hub (snd sub)) w2)))))
   \<and> (\<forall>probe w2.
        result_of (submodule_setup env hub prof mods sub w) = Inr ()
        \<and> shell env (''git rev-parse --verify '' @ bn) (joinpath hub (snd sub))
              (world_of (submodule_setup env hub prof mods sub w)) = (probe, w2)
        \<and> returncode probe \<noteq> 0
        \<and> returncode (fst (shell env (''git checkout -b '' @ bn) (joinpath hub (snd sub)) w2))
            \<noteq> 0
        \<longrightarrow>
        result_of (init_submodule env hub prof mods bn sub w) =
          Inl (Exit (returncode (fst (shell env (''git checkout -b '' @ bn)
             (joinpath hub (snd sub)) w2)))))
   \<and> (result_of (init_submodule env hub prof mods bn sub w) = Inr () \<longrightarrow>
        for_each (init_submodule env hub prof mods bn) (sub # rest) w =
          (case for_each (init_submodule env hub prof mods bn) rest
                  (world_of (init_submodule env hub prof mods bn sub w)) of
             (r, w', t) \<Rightarrow> (r, w', trace_of (init_submodule env hub prof mods bn sub w) @ t)))
   \<and> (\<forall>e. result_of (init_submodule env hub prof mods bn sub w) = Inl e \<longrightarrow>
        for_each (init_submodule env hub prof mods bn) (sub # rest) w =
          init_submodule env hub prof mods bn sub w)
   \<and> (\<forall>e. result_of (get_hub_root env w) = Inr hub
        \<and> result_of (load_sparse_profile env hub service version profile w) = Inr prof
        \<and> result_of (init_step_hub env hub service version w) = Inr ()
        \<and> result_of (for_each
              (init_submodule env hub prof mods (service @ ''/develop/'' @ version))
              (target_submodules prof)
              (world_of (init_step_hub env hub service version w))) = Inl e
        \<longrightarrow>
        result_of (init_workspace env service version mods profile skip_docker w) = Inl e
        \<and> commands (trace_of (init_workspace env service version mods profile skip_docker w))
           = commands (trace_of (init_step_hub env hub service version w))
             @ commands (trace_of (for_each
                 (init_submodule env hub prof mods (service @ ''/develop/'' @ version))
                 (target_submodules prof)
                 (world_of (init_step_hub env hub service version w)))))"
proof (intro conjI impI allI)
  show "exits_by {} (apply_sparse_checkout env sp config)"
    by (rule apply_sparse_checkout_never_exits)
  show "exits_by {''git submodule update --init --depth 1 '' @ snd sub,
      ''git checkout '' @ bn, ''git checkout -b '' @ bn} (init_submodule env hub prof mods bn sub)"
    by (rule init_submodule_exits)
  show "init_submodule env hub prof mods bn sub =
      thenP (submodule_setup env hub prof mods sub)
        (bindP (run_shell env (''git rev-parse --verify '' @ bn) (joinpath hub (snd sub)) False)
           (\<lambda>result.
              if returncode result = 0
              then thenP (run_shell env (''git checkout '' @ bn) (joinpath hub (snd sub)) True)
                     (return ())
              else thenP (run_shell env (''git checkout -b '' @ bn) (joinpath hub (snd sub))
                            True)
                     (return ())))"
    by (rule init_submodule_split)
next
  assume "\<not> path_exists (fs w) (joinpath hub (snd sub))
      \<and> returncode (fst (shell env (''git submodule update --init --depth 1 '' @ snd sub)
            hub w)) \<noteq> 0"
  then show "result_of (init_submodule env hub prof mods bn sub w) =
      Inl (Exit (returncode (fst (shell env
         (''git submodule update --init --depth 1 '' @ snd sub) hub w))))"
    by (simp add: init_submodule_def Let_def case_prod_beta thenP_apply run_shell_def
        split: prod.splits)
next
  fix probe w2
  let ?sp = "joinpath hub (snd sub)"
  let ?w1 = "world_of (submodule_setup env hub prof mods sub w)"
  assume a: "result_of (submodule_setup env hub prof mods sub w) = Inr ()
      \<and> shell env (''git rev-parse --verify '' @ bn) ?sp ?w1 = (probe, w2)
      \<and> returncode probe = 0
      \<and> returncode (fst (shell env (''git checkout '' @ bn) ?sp w2)) \<noteq> 0"
  then have c: "''git checkout '' @ bn
      = (if returncode probe = 0 then ''git checkout '' @ bn else ''git checkout -b '' @ bn)"
    by simp
  from a have prepared: "result_of (submodule_setup env hub prof mods sub w) = Inr ()"
    and probe: "shell env (''git rev-parse --verify '' @ bn) ?sp ?w1 = (probe, w2)"
    and fails: "returncode (fst (shell env (''git checkout '' @ bn) ?sp w2)) \<noteq> 0"
    by simp_all
  show "result_of (init_submodule env hub prof mods bn sub w) =
      Inl (Exit (returncode (fst (shell env (''git checkout '' @ bn) ?sp w2))))"
    unfolding init_submodule_split
      thenP_normal [where m = "submodule_setup env hub prof mods sub" and w = w, OF prepared]
      result_of_simp
    by (rule branch_part_exit [OF probe c fails])
next
  fix probe w2
  let ?sp = "joinpath hub (snd sub)"
  let ?w1 = "world_of (submodule_setup env hub prof mods sub w)"
  assume a: "result_of (submodule_setup env hub prof mods sub w) = Inr ()
      \<and> shell env (''git rev-parse --verify '' @ bn) ?sp ?w1 = (probe, w2)
      \<and> returncode probe \<noteq> 0
      \<and> returncode (fst (shell env (''git checkout -b '' @ bn) ?sp w2)) \<noteq> 0"
  then have c: "''git checkout -b '' @ bn
      = (if returncode probe = 0 then ''git checkout '' @ bn else ''git checkout -b '' @ bn)"
    by simp
  from a have prepared: "result_of (submodule_setup env hub prof mods sub w) = Inr ()"
    and probe: "shell env (''git rev-parse --verify '' @ bn) ?sp ?w1 = (probe, w2)"
    and fails: "returncode (fst (shell env (''git checkout -b '' @ bn) ?sp w2)) \<noteq> 0"
    by simp_all
  show "result_of (init_submodule env hub prof mods bn sub w) =
      Inl (Exit (returncode (fst (shell env (''git checkout -b '' @ bn) ?sp w2))))"
    unfolding init_submodule_split
      thenP_normal [where m = "submodule_setup env hub prof mods sub" and w = w, OF prepared]
      result_of_simp
    by (rule branch_part_exit [OF probe c fails])
next
  assume "result_of (init_submodule env hub prof mods bn sub w) = Inr ()"
  then show "for_each (init_submodule env hub prof mods bn) (sub # rest) w =
      (case for_each (init_submodule env hub prof mods bn) rest
              (world_of (init_submodule env hub prof mods bn sub w)) of
         (r, w', t) \<Rightarrow> (r, w', trace_of (init_submodule env hub prof mods bn sub w) @ t))"
    by (cases "init_submodule env hub prof mods bn sub w" rule: prod_cases3)
       (simp add: thenP_apply)
next
  fix e
  assume "result_of (init_submodule env hub prof mods bn sub w) = Inl e"
  then show "for_each (init_submodule env hub prof mods bn) (sub # rest) w =
      init_submodule env hub prof mods bn sub w"
    by (cases "init_submodule env hub prof mods bn sub w" rule: prod_cases3)
       (simp add: thenP_apply)
next
  fix e
  assume a: "result_of (get_hub_root env w) = Inr hub
      \<and> result_of (load_sparse_profile env hub service version profile w) = Inr prof
      \<and> result_of (init_step_hub env hub service version w) = Inr ()
      \<and> result_of (for_each
            (init_submodule env hub prof mods (service @ ''/develop/'' @ version))
            (target_submodules prof)
            (world_of (init_step_hub env hub service version w))) = Inl e"
  note aborted = init_workspace_loop_exit [OF a [THEN conjunct1] a [THEN conjunct2, THEN conjunct1]
      a [THEN conjunct2, THEN conjunct2, THEN conjunct1]
      a [THEN conjunct2, THEN conjunct2, THEN conjunct2], of skip_docker]
  show "result_of (init_workspace env service version mods profile skip_docker w) = Inl e"
    by (rule aborted [THEN conjunct1])
  show "commands (trace_of (init_workspace env service version mods profile skip_docker w))
      = commands (trace_of (init_step_hub env hub service version w))
        @ commands (trace_of (for_each
            (init_submodule env hub prof mods (service @ ''/develop/'' @ version))
            (target_submodules prof)
            (world_of (init_step_hub env hub service version w))))"
    by (rule aborted [THEN conjunct2])
qed

theorem submodule_loop_counterexample:
  "result_of (init_workspace failing_env ''svc'' ''v1'' None None True demo_world)
     = Inl (Exit 128)
   \<and> commands (trace_of (init_workspace failing_env ''svc'' ''v1'' None None True demo_world)) =
       [''git rev-parse --verify workspace/svc-v1'', ''git checkout workspace/svc-v1'',
        ''git rev-parse --verify svc/develop/v1'', ''git checkout -b svc/develop/v1'']
   \<and> ''git submodule update --init --depth 1 apps/decg-be-monorepo''
       \<in> set (commands (trace_of
             (init_workspace quiet_env ''svc'' ''v1'' None None True demo_world)))"
  by code_simp

theorem submodule_loop_failures_witness:
  "\<not> path_exists (fs demo_world) (joinpath [''work'', ''hub'']
        (snd (''decg-go-monorepo'', ''apps/decg-go-monorepo'')))
   \<and> returncode (fst (shell failing_env
         (''git submodule update --init --depth 1 ''
            @ snd (''decg-go-monorepo'', ''apps/decg-go-monorepo''))
         [''work'', ''hub''] demo_world)) \<noteq> 0
   \<and> result_of (init_submodule failing_env [''work'', ''hub''] None None ''svc/develop/v1''
         (''decg-go-monorepo'', ''apps/decg-go-monorepo'') demo_world) = Inl (Exit 1)
   \<and> result_of (submodule_setup checkout_failing_env [''work'', ''hub''] None None
         (''decg-fe-monorepo'', ''apps/decg-fe-monorepo'') demo_world) = Inr ()
   \<and> returncode (fst (shell checkout_failing_env ''git rev-parse --verify svc/develop/v1''
         [''work'', ''hub'', ''apps'', ''decg-fe-monorepo''] demo_world)) = 0
   \<and> returncode (fst (shell checkout_failing_env ''git checkout svc/develop/v1''
         [''work'', ''hub'', ''apps'', ''decg-fe-monorepo''] demo_world)) = 1
   \<and> result_of (init_submodule checkout_failing_env [''work'', ''hub''] None None
         ''svc/develop/v1'' (''decg-fe-monorepo'', ''apps/decg-fe-monorepo'') demo_world)
       = Inl (Exit 1)
   \<and> result_of (submodule_setup failing_env [''work'', ''hub''] None None
         (''decg-fe-monorepo'', ''apps/decg-fe-monorepo'') demo_world) = Inr ()
   \<and> returncode (fst (shell failing_env ''git rev-parse --verify svc/develop/v1''
         [''work'', ''hub'', ''apps'', ''decg-fe-monorepo''] demo_world)) = 1
   \<and> returncode (fst (shell failing_env ''git checkout -b svc/develop/v1''
         [''work'', ''hub'', ''apps'', ''decg-fe-monorepo''] demo_world)) = 128
   \<and> result_of (init_submodule failing_env [''work'', ''hub''] None None ''svc/develop/v1''
         (''decg-fe-monorepo'', ''apps/decg-fe-monorepo'') demo_world) = Inl (Exit 128)
   \<and> result_of (init_submodule sparse_failing_env [''work'', ''hub''] None (Some [''libs/y''])
         ''svc/develop/v1'' (''decg-fe-monorepo'', ''apps/decg-fe-monorepo'') demo_world) = Inr ()
   \<and> result_of (for_each
         (init_submodule sparse_failing_env [''work'', ''hub''] None (Some [''libs/y''])
            ''svc/develop/v1'')
         [(''decg-fe-monorepo'', ''apps/decg-fe-monorepo''),
          (''decg-be-monorepo'', ''apps/decg-be-monorepo''),
          (''decg-go-monorepo'', ''apps/decg-go-monorepo'')] demo_world) = Inr ()
   \<and> last (commands (trace_of (init_submodule failing_env [''work'', ''hub''] None None
         ''svc/develop/v1'' (''decg-fe-monorepo'', ''apps/decg-fe-monorepo'') demo_world)))
       \<in> {''git submodule update --init --depth 1 apps/decg-fe-monorepo'',
          ''git checkout svc/develop/v1'', ''git checkout -b svc/develop/v1''}
   \<and> for_each (init_submodule failing_env [''work'', ''hub''] None None ''svc/develop/v1'')
         [(''decg-fe-monorepo'', ''apps/decg-fe-monorepo''),
          (''decg-be-monorepo'', ''apps/decg-be-monorepo''),
          (''decg-go-monorepo'', ''apps/decg-go-monorepo'')] demo_world
       = init_submodule failing_env [''work'', ''hub''] None None ''svc/develop/v1''
           (''decg-fe-monorepo'', ''apps/decg-fe-monorepo'') demo_world
   \<and> result_of (get_hub_root failing_env demo_world) = Inr [''work'', ''hub'']
   \<and> result_of (load_sparse_profile failing_env [''work'', ''hub''] ''svc'' ''v1'' None
         demo_world) = Inr None
   \<and> result_of (init_step_hub failing_env [''work'', ''hub''] ''svc'' ''v1'' demo_world) = Inr ()
   \<and> result_of (init_workspace failing_env ''svc'' ''v1'' None None True demo_world)
       = Inl (Exit 128)
   \<and> commands (trace_of (init_workspace failing_env ''svc'' ''v1'' None None True demo_world))
       = [''git rev-parse --verify workspace/svc-v1'', ''git checkout workspace/svc-v1'',
          ''git rev-parse --verify svc/develop/v1'', ''git checkout -b svc/develop/v1'']"
proof -
  let ?hub = "[''work'', ''hub'']"
  let ?fe = "(''decg-fe-monorepo'', ''apps/decg-fe-monorepo'')"
  let ?go = "(''decg-go-monorepo'', ''apps/decg-go-monorepo'')"
  let ?rest = "[(''decg-be-monorepo'', ''apps/decg-be-monorepo''), ?go]"
  let ?bn = "''svc/develop/v1''"
  let ?soft = "init_submodule sparse_failing_env ?hub None (Some [''libs/y'']) ?bn"
  let ?hard = "init_submodule failing_env ?hub None None ?bn"
  let ?refused = "init_submodule checkout_failing_env ?hub None None ?bn"
  let ?ok = "\<lparr>returncode = 0, stdout = [], stderr = ''error''\<rparr>"
  let ?no = "\<lparr>returncode = 1, stdout = [], stderr = []\<rparr>"
  have go: "\<not> path_exists (fs demo_world) (joinpath ?hub (snd ?go))
      \<and> returncode (fst (shell failing_env
            (''git submodule update --init --depth 1 '' @ snd ?go) ?hub demo_world)) \<noteq> 0"
    by code_simp
  have go_rc: "returncode (fst (shell failing_env
      (''git submodule update --init --depth 1 '' @ snd ?go) ?hub demo_world)) = 1"
    by code_simp
  have co: "result_of (submodule_setup checkout_failing_env ?hub None None ?fe demo_world)
        = Inr ()
      \<and> shell checkout_failing_env (''git rev-parse --verify '' @ ?bn) (joinpath ?hub (snd ?fe))
            (world_of (submodule_setup checkout_failing_env ?hub None None ?fe demo_world))
          = (?ok, demo_world)
      \<and> returncode ?ok = 0
      \<and> returncode (fst (shell checkout_failing_env (''git checkout '' @ ?bn)
            (joinpath ?hub (snd ?fe)) demo_world)) \<noteq> 0"
    by code_simp
  have co_rc: "returncode (fst (shell checkout_failing_env (''git checkout '' @ ?bn)
      (joinpath ?hub (snd ?fe)) demo_world)) = 1"
    by code_simp
  have co_probe: "returncode (fst (shell checkout_failing_env
      ''git rev-parse --verify svc/develop/v1''
      [''work'', ''hub'', ''apps'', ''decg-fe-monorepo''] demo_world)) = 0"
    by code_simp
  have co_run: "returncode (fst (shell checkout_failing_env ''git checkout svc/develop/v1''
      [''work'', ''hub'', ''apps'', ''decg-fe-monorepo''] demo_world)) = 1"
    by code_simp
  have cob: "result_of (submodule_setup failing_env ?hub None None ?fe demo_world) = Inr ()
      \<and> shell failing_env (''git rev-parse --verify '' @ ?bn) (joinpath ?hub (snd ?fe))
            (world_of (submodule_setup failing_env ?hub None None ?fe demo_world))
          = (?no, demo_world)
      \<and> returncode ?no \<noteq> 0
      \<and> returncode (fst (shell failing_env (''git checkout -b '' @ ?bn)
            (joinpath ?hub (snd ?fe)) demo_world)) \<noteq> 0"
    by code_simp
  have cob_rc: "returncode (fst (shell failing_env (''git checkout -b '' @ ?bn)
      (joinpath ?hub (snd ?fe)) demo_world)) = 128"
    by code_simp
  have cob_probe: "returncode (fst (shell failing_env ''git rev-parse --verify svc/develop/v1''
      [''work'', ''hub'', ''apps'', ''decg-fe-monorepo''] demo_world)) = 1"
    by code_simp
  have cob_run: "returncode (fst (shell failing_env ''git checkout -b svc/develop/v1''
      [''work'', ''hub'', ''apps'', ''decg-fe-monorepo''] demo_world)) = 128"
    by code_simp
  have soft: "result_of (?soft ?fe demo_world) = Inr ()"
    by code_simp
  have soft_rest: "result_of (for_each ?soft ?rest (world_of (?soft ?fe demo_world))) = Inr ()"
    by code_simp
  have init: "result_of (get_hub_root failing_env demo_world) = Inr ?hub
      \<and> result_of (load_sparse_profile failing_env ?hub ''svc'' ''v1'' None demo_world) = Inr None
      \<and> result_of (init_step_hub failing_env ?hub ''svc'' ''v1'' demo_world) = Inr ()
      \<and> result_of (for_each
            (init_submodule failing_env ?hub None None (''svc'' @ ''/develop/'' @ ''v1''))
            (target_submodules None)
            (world_of (init_step_hub failing_env ?hub ''svc'' ''v1'' demo_world)))
          = Inl (Exit 128)"
    by code_simp
  have init_cmds: "commands (trace_of (init_step_hub failing_env ?hub ''svc'' ''v1'' demo_world))
        @ commands (trace_of (for_each
            (init_submodule failing_env ?hub None None (''svc'' @ ''/develop/'' @ ''v1''))
            (target_submodules None)
            (world_of (init_step_hub failing_env ?hub ''svc'' ''v1'' demo_world))))
      = [''git rev-parse --verify workspace/svc-v1'', ''git checkout workspace/svc-v1'',
         ''git rev-parse --verify svc/develop/v1'', ''git checkout -b svc/develop/v1'']"
    by code_simp
  note go_inst = submodule_loop_failures [where env = failing_env and hub = ?hub
      and prof = None and mods = None and bn = ?bn and sub = ?go and w = demo_world]
  note refused_inst = submodule_loop_failures [where env = checkout_failing_env and hub = ?hub
      and prof = None and mods = None and bn = ?bn and sub = ?fe and w = demo_world]
  note soft_inst = submodule_loop_failures [where env = sparse_failing_env and hub = ?hub
      and prof = None and mods = "Some [''libs/y'']" and bn = ?bn and sub = ?fe
      and rest = ?rest and w = demo_world]
  note hard_inst = submodule_loop_failures [where env = failing_env and hub = ?hub
      and prof = None and mods = None and bn = ?bn and sub = ?fe and rest = ?rest
      and w = demo_world and service = "''svc''" and version = "''v1''" and profile = None
      and skip_docker = True]
  have 1: "result_of (?hard ?go demo_world) = Inl (Exit 1)"
    using go_inst [THEN conjunct2, THEN conjunct2, THEN conjunct2, THEN conjunct1, THEN mp,
        OF go] go_rc
    by simp
  have 2: "result_of (?refused ?fe demo_world) = Inl (Exit 1)"
    using refused_inst [THEN conjunct2, THEN conjunct2, THEN conjunct2, THEN conjunct2,
        THEN conjunct1, THEN spec, THEN spec, THEN mp, OF co] co_rc
    by simp
  have 3: "result_of (?hard ?fe demo_world) = Inl (Exit 128)"
    using hard_inst [THEN conjunct2, THEN conjunct2, THEN conjunct2, THEN conjunct2,
        THEN conjunct2, THEN conjunct1, THEN spec, THEN spec, THEN mp, OF cob] cob_rc
    by simp
  have 4: "result_of (for_each ?soft (?fe # ?rest) demo_world) = Inr ()"
    using soft_inst [THEN conjunct2, THEN conjunct2, THEN conjunct2, THEN conjunct2,
        THEN conjunct2, THEN conjunct2, THEN conjunct1, THEN mp, OF soft] soft_rest
    by (cases "for_each ?soft ?rest (world_of (?soft ?fe demo_world))" rule: prod_cases3) simp
  have 5: "last (commands (trace_of (?hard ?fe demo_world)))
      \<in> {''git submodule update --init --depth 1 '' @ snd ?fe,
         ''git checkout '' @ ?bn, ''git checkout -b '' @ ?bn}"
    using hard_inst [THEN conjunct2, THEN conjunct1] 3
    unfolding exits_by_def by blast
  have 6: "for_each ?hard (?fe # ?rest) demo_world = ?hard ?fe demo_world"
    using hard_inst [THEN conjunct2, THEN conjunct2, THEN conjunct2, THEN conjunct2,
        THEN conjunct2, THEN conjunct2, THEN conjunct2, THEN conjunct1, THEN spec, THEN mp, OF 3] .
  have 7: "result_of (init_workspace failing_env ''svc'' ''v1'' None None True demo_world)
        = Inl (Exit 128)
      \<and> commands (trace_of (init_workspace failing_env ''svc'' ''v1'' None None True demo_world))
        = [''git rev-parse --verify workspace/svc-v1'', ''git checkout workspace/svc-v1'',
           ''git rev-parse --verify svc/develop/v1'', ''git checkout -b svc/develop/v1'']"
    using hard_inst [THEN conjunct2, THEN conjunct2, THEN conjunct2, THEN conjunct2,
        THEN conjunct2, THEN conjunct2, THEN conjunct2, THEN conjunct2, THEN spec, THEN mp,
        OF init] init_cmds
    by simp
  show ?thesis
    using go 1 co co_probe co_run 2 cob cob_probe cob_run 3 soft 4 5 6 init 7 by simp
qed

end
